theory Spec2Isabelle
  imports Complex_Main
begin

section \<open>Requests and responses\<close>

text \<open>
  Every handler answers with a status code and the envelope
  \<^verbatim>\<open>{success, message, data}\<close>; the model keeps the status and the message. The
  messages are the source's Portuguese strings written without diacritics. A handler that
  touches the database takes the tables it uses and returns them with the response. What
  the source reads from its environment (the clock, identifiers generated for new rows,
  the bcrypt and JWT libraries) is an explicit argument.

  A request body is a JSON object, modelled as a map from field names to strings; a
  field is falsy in the source when it is absent or the empty string. The body of
  \<^verbatim>\<open>login\<close>, where the type of a value decides the response, is a map to JSON values.
\<close>

record response =
  status :: nat
  message :: string

type_synonym body = "string \<rightharpoonup> string"

definition truthy :: "string option \<Rightarrow> bool" where
  "truthy v = (case v of None \<Rightarrow> False | Some s \<Rightarrow> s \<noteq> [])"

fun join :: "string \<Rightarrow> string list \<Rightarrow> string" where
  "join sep [] = []"
| "join sep [x] = x"
| "join sep (x # y # ys) = x @ sep @ join sep (y # ys)"

text \<open>Source: \<^verbatim>\<open>src/utils/validation.js\<close>.\<close>

definition validateRequiredFields :: "body \<Rightarrow> string list \<Rightarrow> bool \<times> string list" where
  "validateRequiredFields data requiredFields =
     (let missing = filter (\<lambda>field. \<not> truthy (data field)) requiredFields
      in (length missing = 0, missing))"

text \<open>
  \<^verbatim>\<open>isValidEmail\<close> tests the regular expression \<^verbatim>\<open>/^[^\s@]+@[^\s@]+\.[^\s@]+$/\<close>: a
  non-empty local part, the first \<^verbatim>\<open>@\<close>, and a rest without \<^verbatim>\<open>@\<close> that has a dot with
  at least one character on each side; no white space anywhere. Characters are the 8-bit
  characters of HOL, of which \<^verbatim>\<open>\s\<close> holds the codes 9 to 13, 32 and 160.
\<close>

definition isSpace :: "char \<Rightarrow> bool" where
  "isSpace c = (of_char c \<in> set [9, 10, 11, 12, 13, 32, 160 :: nat])"

definition isValidEmail :: "string \<Rightarrow> bool" where
  "isValidEmail email =
     (let local = takeWhile (\<lambda>c. c \<noteq> CHR ''@'') email;
          rest = dropWhile (\<lambda>c. c \<noteq> CHR ''@'') email;
          domain = tl rest
      in local \<noteq> [] \<and> rest \<noteq> [] \<and>
         list_all (\<lambda>c. \<not> isSpace c) local \<and>
         list_all (\<lambda>c. \<not> isSpace c \<and> c \<noteq> CHR ''@'') domain \<and>
         CHR ''.'' \<in> set (butlast (tl domain)))"

definition isValidPassword :: "string \<Rightarrow> bool" where
  "isValidPassword password = (password \<noteq> [] \<and> length password \<ge> 6)"

text \<open>
  \<^verbatim>\<open>isFutureDate\<close> builds a \<^verbatim>\<open>Date\<close> from its argument and compares it with the clock.
  Parsing a date string is the runtime's work and is the parameter \<open>parseDate\<close>; an
  invalid date (\<^verbatim>\<open>NaN\<close>) is \<open>None\<close> and compares false.
\<close>

definition isFutureDate :: "(string \<Rightarrow> int option) \<Rightarrow> int \<Rightarrow> string \<Rightarrow> bool" where
  "isFutureDate parseDate now date =
     (case parseDate date of None \<Rightarrow> False | Some dateObj \<Rightarrow> dateObj > now)"

section \<open>Pregnancy week calculator\<close>

text \<open>
  Source: \<^verbatim>\<open>src/domains/pregnancy/pregnancy.controller.js\<close>, \<^verbatim>\<open>calculateCurrentWeek\<close>.
  A JavaScript \<^verbatim>\<open>Date\<close> is a number of milliseconds since the epoch; \<^verbatim>\<open>now\<close>, which the
  source reads from the clock, is an explicit argument here. Every caller passes a valid
  date (\<^verbatim>\<open>isFutureDate\<close> has accepted it, or it comes from the database), so a time is an
  \<^typ>\<open>int\<close>. The quotient is taken in the rationals: the source divides two doubles, and
  the quotient of two time differences is modelled exactly.
\<close>

definition millisecondsPerWeek :: int where
  "millisecondsPerWeek = 7 * 24 * 60 * 60 * 1000"

definition weeksSinceLMP :: rat where
  "weeksSinceLMP = 40"

definition calculateCurrentWeek :: "int \<Rightarrow> int \<Rightarrow> int" where
  "calculateCurrentWeek now due =
     (let weeksUntilDue = (of_int (due - now) :: rat) / of_int millisecondsPerWeek;
          currentWeek = \<lfloor>weeksSinceLMP - weeksUntilDue\<rfloor>
      in max 1 (min 40 currentWeek))"

text \<open>
  The calculator as the specification words it: the number of remaining weeks is the
  quotient rounded down, and the week is forty minus that number, clamped.
\<close>

definition spec_weeksRemaining :: "int \<Rightarrow> int \<Rightarrow> int" where
  "spec_weeksRemaining now due = \<lfloor>(of_int (due - now) :: rat) / of_int millisecondsPerWeek\<rfloor>"

definition spec_currentWeek :: "int \<Rightarrow> int \<Rightarrow> int" where
  "spec_currentWeek now due = max 1 (min 40 (40 - spec_weeksRemaining now due))"

section \<open>Accounts: registration, login, password change\<close>

text \<open>
  Source: the auth controller (\<^verbatim>\<open>register\<close>, \<^verbatim>\<open>login\<close>) and the users controller
  (\<^verbatim>\<open>changePassword\<close>). The table \<^verbatim>\<open>users\<close> is a list of rows. A row carries, as the
  queries with \<^verbatim>\<open>include\<close> return it, the identifier of its mother or collaborator profile
  when it has one. \<^verbatim>\<open>bcrypt.hash\<close> and \<^verbatim>\<open>bcrypt.compare\<close> are parameters; the identifiers
  of the new rows are generated by the ORM and are parameters too. An exception thrown
  inside a handler is caught by its \<^verbatim>\<open>catch\<close> block, which answers 500.
\<close>

datatype role = MOTHER | COLLABORATOR | ADMIN

record user =
  user_id :: string
  user_email :: string
  user_passwordHash :: string
  user_role :: role
  user_isVerified :: bool
  user_motherProfile :: "string option"
  user_collaboratorProfile :: "string option"

text \<open>
  \<^verbatim>\<open>prisma.user.create\<close>: the insert throws (\<open>None\<close>) when the primary key or the unique
  index \<^verbatim>\<open>users_email_key\<close> of the migration is violated.
\<close>

definition prisma_user_create :: "user \<Rightarrow> user list \<Rightarrow> user list option" where
  "prisma_user_create userData users =
     (if user_id userData \<in> set (map user_id users)
         \<or> user_email userData \<in> set (map user_email users)
      then None else Some (users @ [userData]))"

definition register ::
  "(string \<Rightarrow> string) \<Rightarrow> string \<Rightarrow> string \<Rightarrow> body \<Rightarrow> user list \<Rightarrow> response \<times> user list" where
  "register bcrypt_hash newId newProfileId reqBody users =
     (let email = reqBody ''email''; password = reqBody ''password''; role = reqBody ''role'';
          profession = reqBody ''profession'';
          (valid, missing) =
             validateRequiredFields reqBody [''email'', ''password'', ''role'', ''fullName'']
      in if \<not> valid then
           (\<lparr>status = 400,
             message = ''Campos obrigatorios ausentes: '' @ join '', '' missing\<rparr>, users)
         else if \<not> isValidEmail (the email) then
           (\<lparr>status = 400, message = ''Email invalido''\<rparr>, users)
         else if \<not> isValidPassword (the password) then
           (\<lparr>status = 400, message = ''A senha deve ter pelo menos 6 caracteres''\<rparr>, users)
         else if the role \<notin> set [''MOTHER'', ''COLLABORATOR''] then
           (\<lparr>status = 400, message = ''Role invalido. Use MOTHER ou COLLABORATOR''\<rparr>, users)
         else
           (case find (\<lambda>u. user_email u = the email) users of
              Some existingUser \<Rightarrow>
                (\<lparr>status = 409, message = ''Este email ja esta cadastrado''\<rparr>, users)
            | None \<Rightarrow>
                (let passwordHash = bcrypt_hash (the password);
                     userData = \<lparr>user_id = newId, user_email = the email,
                       user_passwordHash = passwordHash,
                       user_role = (if the role = ''MOTHER'' then MOTHER else COLLABORATOR),
                       user_isVerified = False, user_motherProfile = None,
                       user_collaboratorProfile = None\<rparr>
                 in if the role \<noteq> ''MOTHER'' \<and> \<not> truthy profession then
                      (\<lparr>status = 400,
                        message = ''Profissao e obrigatoria para colaboradores''\<rparr>, users)
                    else
                      (case prisma_user_create
                              (if the role = ''MOTHER''
                               then userData\<lparr>user_motherProfile := Some newProfileId\<rparr>
                               else userData\<lparr>user_collaboratorProfile := Some newProfileId\<rparr>)
                              users of
                         None \<Rightarrow> (\<lparr>status = 500, message = ''Erro ao criar usuario''\<rparr>, users)
                       | Some users' \<Rightarrow>
                           (\<lparr>status = 201, message = ''Usuario criado com sucesso''\<rparr>,
                            users')))))"

text \<open>The four validation guards that \<^verbatim>\<open>register\<close> runs before it looks the email up.\<close>

definition register_validates :: "body \<Rightarrow> bool" where
  "register_validates reqBody =
     (fst (validateRequiredFields reqBody [''email'', ''password'', ''role'', ''fullName''])
      \<and> isValidEmail (the (reqBody ''email''))
      \<and> isValidPassword (the (reqBody ''password''))
      \<and> the (reqBody ''role'') \<in> set [''MOTHER'', ''COLLABORATOR''])"

text \<open>
  \<^verbatim>\<open>login\<close> reads the email and the password from the body without testing their types,
  and the type of the password decides what \<^verbatim>\<open>bcrypt.compare\<close> does. So the body of
  \<^verbatim>\<open>login\<close> holds JSON values: \<open>JCompound\<close> stands for an array or an object, which are
  truthy. \<^verbatim>\<open>validateRequiredFields\<close> tests truthiness only. The ORM throws when the
  email of \<^verbatim>\<open>findUnique\<close> is not a string, and \<^verbatim>\<open>bcrypt.compare\<close> rejects when the
  password is not a string; on two strings it resolves to a boolean, the parameter
  \<open>bcrypt_compare\<close>. The \<^verbatim>\<open>catch\<close> block answers every exception with 500.
\<close>

datatype json = JNull | JBool bool | JNumber rat | JString string | JCompound

type_synonym json_body = "string \<rightharpoonup> json"

definition truthy_json :: "json option \<Rightarrow> bool" where
  "truthy_json v =
     (case v of
        None \<Rightarrow> False
      | Some JNull \<Rightarrow> False
      | Some (JBool b) \<Rightarrow> b
      | Some (JNumber n) \<Rightarrow> n \<noteq> 0
      | Some (JString s) \<Rightarrow> s \<noteq> []
      | Some JCompound \<Rightarrow> True)"

definition validateRequiredFields_json :: "json_body \<Rightarrow> string list \<Rightarrow> bool \<times> string list" where
  "validateRequiredFields_json data requiredFields =
     (let missing = filter (\<lambda>field. \<not> truthy_json (data field)) requiredFields
      in (length missing = 0, missing))"

definition login :: "(string \<Rightarrow> string \<Rightarrow> bool) \<Rightarrow> json_body \<Rightarrow> user list \<Rightarrow> response" where
  "login bcrypt_compare reqBody users =
     (let email = reqBody ''email''; password = reqBody ''password'';
          (valid, missing) = validateRequiredFields_json reqBody [''email'', ''password'']
      in if \<not> valid then
           \<lparr>status = 400, message = ''Campos obrigatorios ausentes: '' @ join '', '' missing\<rparr>
         else
           (case email of
              Some (JString emailString) \<Rightarrow>
                (case find (\<lambda>u. user_email u = emailString) users of
                   None \<Rightarrow> \<lparr>status = 401, message = ''Email ou senha incorretos''\<rparr>
                 | Some user \<Rightarrow>
                     (case password of
                        Some (JString passwordString) \<Rightarrow>
                          (let isPasswordValid =
                                 bcrypt_compare passwordString (user_passwordHash user)
                           in if \<not> isPasswordValid then
                                \<lparr>status = 401, message = ''Email ou senha incorretos''\<rparr>
                              else \<lparr>status = 200, message = ''Login realizado com sucesso''\<rparr>)
                      | _ \<Rightarrow> \<lparr>status = 500, message = ''Erro ao fazer login''\<rparr>))
            | _ \<Rightarrow> \<lparr>status = 500, message = ''Erro ao fazer login''\<rparr>))"

definition changePassword ::
  "(string \<Rightarrow> string \<Rightarrow> bool) \<Rightarrow> (string \<Rightarrow> string) \<Rightarrow> string \<Rightarrow> body \<Rightarrow> user list
     \<Rightarrow> response \<times> user list" where
  "changePassword bcrypt_compare bcrypt_hash userId reqBody users =
     (let currentPassword = reqBody ''currentPassword''; newPassword = reqBody ''newPassword''
      in if \<not> truthy currentPassword \<or> \<not> truthy newPassword then
           (\<lparr>status = 400, message = ''Senha atual e nova senha sao obrigatorias''\<rparr>, users)
         else if length (the newPassword) < 6 then
           (\<lparr>status = 400, message = ''A nova senha deve ter pelo menos 6 caracteres''\<rparr>, users)
         else
           (case find (\<lambda>u. user_id u = userId) users of
              None \<Rightarrow> (\<lparr>status = 500, message = ''Erro ao alterar senha''\<rparr>, users)
            | Some user \<Rightarrow>
                if \<not> bcrypt_compare (the currentPassword) (user_passwordHash user) then
                  (\<lparr>status = 401, message = ''Senha atual incorreta''\<rparr>, users)
                else
                  (\<lparr>status = 200, message = ''Senha alterada com sucesso''\<rparr>,
                   map (\<lambda>u. if user_id u = userId
                            then u\<lparr>user_passwordHash := bcrypt_hash (the newPassword)\<rparr>
                            else u) users)))"

text \<open>
  The states of the table \<^verbatim>\<open>users\<close> that the handlers can reach from the empty table.
  No other handler writes a column of \<^verbatim>\<open>users\<close>: \<^verbatim>\<open>updateProfile\<close> updates the profile
  tables only.
\<close>

inductive users_reachable :: "user list \<Rightarrow> bool" where
  users_init: "users_reachable []"
| users_register:
    "users_reachable users \<Longrightarrow>
     users_reachable (snd (register bcrypt_hash newId newProfileId reqBody users))"
| users_changePassword:
    "users_reachable users \<Longrightarrow>
     users_reachable (snd (changePassword bcrypt_compare bcrypt_hash userId reqBody users))"

section \<open>Authentication gate\<close>

text \<open>
  Source: \<^verbatim>\<open>src/middleware/auth.js\<close>, \<^verbatim>\<open>authenticate\<close>. The token codec
  (\<^verbatim>\<open>utils/jwt.js\<close>) is not part of the sources: \<open>verifyToken\<close> is a parameter that either
  throws, for an expired or for an otherwise invalid token, or returns the decoded claims;
  the ORM throws when the decoded claims carry no user identifier. The middleware either
  answers itself or calls \<^verbatim>\<open>next\<close> with the request context extended.
\<close>

datatype jwt_error = TokenExpiredError | JsonWebTokenError

record claims =
  claims_userId :: "string option"
  claims_email :: string
  claims_role :: role

record request_context =
  req_user :: user
  req_userId :: string
  req_userRole :: role

datatype auth_result = Responded response | Next request_context

fun split :: "char \<Rightarrow> string \<Rightarrow> string list" where
  "split sep [] = [[]]"
| "split sep (c # cs) =
     (if c = sep then [] # split sep cs
      else (case split sep cs of [] \<Rightarrow> [[c]] | w # ws \<Rightarrow> (c # w) # ws))"

definition startsWith :: "string \<Rightarrow> string \<Rightarrow> bool" where
  "startsWith s p = (take (length p) s = p)"

text \<open>\<^verbatim>\<open>authHeader.split(' ')[1]\<close>; \<open>None\<close> is \<^verbatim>\<open>undefined\<close>.\<close>

definition bearerToken :: "string \<Rightarrow> string option" where
  "bearerToken authHeader =
     (let parts = split (CHR '' '') authHeader
      in if 1 < length parts then Some (parts ! 1) else None)"

definition authenticate ::
  "(string option \<Rightarrow> jwt_error + claims) \<Rightarrow> user list \<Rightarrow> string option \<Rightarrow> auth_result" where
  "authenticate verifyToken users authHeader =
     (if \<not> truthy authHeader \<or> \<not> startsWith (the authHeader) ''Bearer '' then
        Responded \<lparr>status = 401, message = ''Token de autenticacao nao fornecido''\<rparr>
      else
        (let token = bearerToken (the authHeader)
         in case verifyToken token of
              Inl error \<Rightarrow> Responded \<lparr>status = 401, message = ''Token invalido ou expirado''\<rparr>
            | Inr decoded \<Rightarrow>
                (case claims_userId decoded of
                   None \<Rightarrow> Responded \<lparr>status = 401, message = ''Token invalido ou expirado''\<rparr>
                 | Some userId \<Rightarrow>
                     (case find (\<lambda>u. user_id u = userId) users of
                        None \<Rightarrow> Responded \<lparr>status = 401, message = ''Usuario nao encontrado''\<rparr>
                      | Some user \<Rightarrow>
                          Next \<lparr>req_user = user, req_userId = user_id user,
                                req_userRole = user_role user\<rparr>))))"

section \<open>Pregnancy handlers\<close>

text \<open>
  Source: \<^verbatim>\<open>src/domains/pregnancy/pregnancy.controller.js\<close>. The handlers run behind
  \<^verbatim>\<open>authenticate\<close>, which has put the account row into the request; they read
  \<^verbatim>\<open>req.user.role\<close> and \<^verbatim>\<open>req.userId\<close>.
\<close>

datatype pregnancy_status = ACTIVE | COMPLETED | LOST

record pregnancy =
  pregnancy_id :: string
  pregnancy_motherProfileId :: string
  pregnancy_dueDate :: int
  pregnancy_currentWeek :: int
  pregnancy_status :: pregnancy_status

record motherProfile =
  motherProfile_id :: string
  motherProfile_userId :: string

record pregnancy_db =
  motherProfiles :: "motherProfile list"
  pregnancies :: "pregnancy list"

text \<open>
  Modelled from the spec: the relational schema (\<^verbatim>\<open>prisma/schema.prisma\<close>) is missing
  from the sources, and the migration under \<^verbatim>\<open>prisma/migrations\<close> stops before the
  pregnancy table. By the data model of the specification a pregnancy belongs to exactly
  one mother profile and has a status, and a profile may have several pregnancies, of
  which at most one is to be Active; the persisted state layout lists no unique
  constraint on the pregnancy table. So the table has its primary key only, and the
  insert throws (\<open>None\<close>) when the primary key is violated. The handlers read
  \<^verbatim>\<open>motherProfile.pregnancy\<close> as one row: the relation loader returns the first row of
  the profile that satisfies the \<^verbatim>\<open>where\<close> clause of the \<^verbatim>\<open>include\<close>, if there is one.
\<close>

definition include_pregnancy ::
  "(pregnancy \<Rightarrow> bool) \<Rightarrow> pregnancy list \<Rightarrow> motherProfile \<Rightarrow> pregnancy option" where
  "include_pregnancy whereClause rows profile =
     find (\<lambda>p. pregnancy_motherProfileId p = motherProfile_id profile \<and> whereClause p) rows"

definition prisma_pregnancy_create :: "pregnancy \<Rightarrow> pregnancy list \<Rightarrow> pregnancy list option" where
  "prisma_pregnancy_create row rows =
     (if pregnancy_id row \<in> set (map pregnancy_id rows) then None else Some (rows @ [row]))"

definition prisma_pregnancy_update ::
  "string \<Rightarrow> (pregnancy \<Rightarrow> pregnancy) \<Rightarrow> pregnancy list \<Rightarrow> pregnancy list" where
  "prisma_pregnancy_update ident upd rows =
     map (\<lambda>p. if pregnancy_id p = ident then upd p else p) rows"

definition createPregnancy ::
  "(string \<Rightarrow> int option) \<Rightarrow> int \<Rightarrow> string \<Rightarrow> user \<Rightarrow> body \<Rightarrow> pregnancy_db
     \<Rightarrow> response \<times> pregnancy_db" where
  "createPregnancy parseDate now newId reqUser reqBody db =
     (if user_role reqUser \<noteq> MOTHER then
        (\<lparr>status = 403, message = ''Apenas maes podem criar rastreamento de gravidez''\<rparr>, db)
      else
        (let dueDate = reqBody ''dueDate'';
             (valid, missing) = validateRequiredFields reqBody [''dueDate'']
         in if \<not> valid then
              (\<lparr>status = 400,
                message = ''Campos obrigatorios ausentes: '' @ join '', '' missing\<rparr>, db)
            else if \<not> isFutureDate parseDate now (the dueDate) then
              (\<lparr>status = 400, message = ''A data prevista deve ser no futuro''\<rparr>, db)
            else
              (case find (\<lambda>m. motherProfile_userId m = user_id reqUser) (motherProfiles db) of
                 None \<Rightarrow> (\<lparr>status = 500, message = ''Erro ao criar gravidez''\<rparr>, db)
               | Some motherProfile \<Rightarrow>
                   (let pregnancy = include_pregnancy (\<lambda>p. True) (pregnancies db) motherProfile
                    in if pregnancy \<noteq> None \<and> pregnancy_status (the pregnancy) = ACTIVE then
                         (\<lparr>status = 409, message = ''Voce ja tem uma gravidez ativa''\<rparr>, db)
                       else
                         (let due = the (parseDate (the dueDate));
                              currentWeek = calculateCurrentWeek now due
                          in case prisma_pregnancy_create
                                    \<lparr>pregnancy_id = newId,
                                     pregnancy_motherProfileId = motherProfile_id motherProfile,
                                     pregnancy_dueDate = due,
                                     pregnancy_currentWeek = currentWeek,
                                     pregnancy_status = ACTIVE\<rparr> (pregnancies db) of
                               None \<Rightarrow>
                                 (\<lparr>status = 500, message = ''Erro ao criar gravidez''\<rparr>, db)
                             | Some rows \<Rightarrow>
                                 (\<lparr>status = 201, message = ''Gravidez criada com sucesso''\<rparr>,
                                  db\<lparr>pregnancies := rows\<rparr>))))))"


definition parseStatus :: "string \<Rightarrow> pregnancy_status option" where
  "parseStatus s =
     (if s = ''ACTIVE'' then Some ACTIVE
      else if s = ''COMPLETED'' then Some COMPLETED
      else if s = ''LOST'' then Some LOST else None)"

definition updatePregnancy ::
  "(string \<Rightarrow> int option) \<Rightarrow> int \<Rightarrow> user \<Rightarrow> string \<Rightarrow> body \<Rightarrow> pregnancy_db
     \<Rightarrow> response \<times> pregnancy_db" where
  "updatePregnancy parseDate now reqUser ident reqBody db =
     (if user_role reqUser \<noteq> MOTHER then
        (\<lparr>status = 403, message = ''Apenas maes podem atualizar gravidez''\<rparr>, db)
      else
        (let dueDate = reqBody ''dueDate''; newStatus = reqBody ''status''
         in case find (\<lambda>p. pregnancy_id p = ident) (pregnancies db) of
              None \<Rightarrow> (\<lparr>status = 404, message = ''Gravidez nao encontrada''\<rparr>, db)
            | Some pregnancy \<Rightarrow>
                (case find (\<lambda>m. motherProfile_id m = pregnancy_motherProfileId pregnancy)
                        (motherProfiles db) of
                   None \<Rightarrow> (\<lparr>status = 500, message = ''Erro ao atualizar gravidez''\<rparr>, db)
                 | Some motherProfile \<Rightarrow>
                     if motherProfile_userId motherProfile \<noteq> user_id reqUser then
                       (\<lparr>status = 403,
                         message = ''Voce nao tem permissao para atualizar esta gravidez''\<rparr>, db)
                     else if truthy dueDate \<and> \<not> isFutureDate parseDate now (the dueDate) then
                       (\<lparr>status = 400, message = ''A data prevista deve ser no futuro''\<rparr>, db)
                     else
                       (let setDate =
                              (\<lambda>r. if truthy dueDate then
                                     r\<lparr>pregnancy_dueDate := the (parseDate (the dueDate)),
                                       pregnancy_currentWeek :=
                                         calculateCurrentWeek now
                                           (the (parseDate (the dueDate)))\<rparr>
                                   else r);
                            setStatus =
                              (\<lambda>r. if truthy newStatus \<and> parseStatus (the newStatus) \<noteq> None
                                   then r\<lparr>pregnancy_status := the (parseStatus (the newStatus))\<rparr>
                                   else r)
                        in (\<lparr>status = 200, message = ''Gravidez atualizada com sucesso''\<rparr>,
                            db\<lparr>pregnancies :=
                                 prisma_pregnancy_update ident (\<lambda>r. setStatus (setDate r))
                                   (pregnancies db)\<rparr>)))))"



section \<open>Event registration\<close>

text \<open>
  Source: \<^verbatim>\<open>src/domains/events/events.controller.js\<close>, \<^verbatim>\<open>registerForEvent\<close> and
  \<^verbatim>\<open>cancelRegistration\<close>, and \<^verbatim>\<open>publishEvent\<close> of the admin controller. An event row
  keeps the columns these handlers read. The capacity is optional; the source tests it by
  truthiness, so that an absent capacity and the capacity 0 both mean that there is no
  limit. A registration is keyed by the event and by the mother profile of the user.
\<close>

datatype registration_status = REGISTERED | WAITLIST | CANCELLED

record event =
  event_id :: string
  event_isPublished :: bool
  event_capacity :: "int option"
  event_waitlistEnabled :: bool

record eventRegistration =
  eventRegistration_eventId :: string
  eventRegistration_userId :: string
  eventRegistration_status :: registration_status
  eventRegistration_cancelledAt :: "int option"

record events_db =
  events :: "event list"
  registrations :: "eventRegistration list"

definition findRegistration ::
  "eventRegistration list \<Rightarrow> string \<Rightarrow> string \<Rightarrow> eventRegistration option" where
  "findRegistration rows eventId userId =
     find (\<lambda>r. eventRegistration_eventId r = eventId \<and> eventRegistration_userId r = userId) rows"

definition registeredCount :: "events_db \<Rightarrow> string \<Rightarrow> int" where
  "registeredCount db eventId =
     int (length (filter (\<lambda>r. eventRegistration_eventId r = eventId
                               \<and> eventRegistration_status r = REGISTERED) (registrations db)))"

definition registerForEvent :: "user \<Rightarrow> string \<Rightarrow> events_db \<Rightarrow> response \<times> events_db" where
  "registerForEvent reqUser ident db =
     (if user_role reqUser \<noteq> MOTHER then
        (\<lparr>status = 403, message = ''Apenas maes podem se registrar em eventos''\<rparr>, db)
      else
        (case find (\<lambda>e. event_id e = ident \<and> event_isPublished e) (events db) of
           None \<Rightarrow> (\<lparr>status = 404, message = ''Evento nao encontrado''\<rparr>, db)
         | Some event \<Rightarrow>
             (case user_motherProfile reqUser of
                None \<Rightarrow> (\<lparr>status = 500, message = ''Erro ao realizar inscricao''\<rparr>, db)
              | Some userId \<Rightarrow>
                  (case findRegistration (registrations db) ident userId of
                     Some existing \<Rightarrow>
                       (\<lparr>status = 409, message = ''Voce ja esta registrada neste evento''\<rparr>, db)
                   | None \<Rightarrow>
                       (let count = registeredCount db ident;
                            full = (case event_capacity event of
                                      None \<Rightarrow> False
                                    | Some capacity \<Rightarrow> capacity \<noteq> 0 \<and> count \<ge> capacity)
                        in if full \<and> \<not> event_waitlistEnabled event then
                             (\<lparr>status = 400, message = ''Este evento esta lotado''\<rparr>, db)
                           else
                             (let newStatus = (if full then WAITLIST else REGISTERED)
                              in (\<lparr>status = 201,
                                   message = (if newStatus = WAITLIST
                                              then ''Voce foi adicionada a lista de espera''
                                              else ''Inscricao realizada com sucesso'')\<rparr>,
                                  db\<lparr>registrations := registrations db @
                                      [\<lparr>eventRegistration_eventId = ident,
                                        eventRegistration_userId = userId,
                                        eventRegistration_status = newStatus,
                                        eventRegistration_cancelledAt = None\<rparr>]\<rparr>)))))))"

definition cancelRegistration ::
  "int \<Rightarrow> user \<Rightarrow> string \<Rightarrow> events_db \<Rightarrow> response \<times> events_db" where
  "cancelRegistration now reqUser ident db =
     (if user_role reqUser \<noteq> MOTHER then
        (\<lparr>status = 403, message = ''Acao nao permitida''\<rparr>, db)
      else
        (case user_motherProfile reqUser of
           None \<Rightarrow> (\<lparr>status = 500, message = ''Erro ao cancelar inscricao''\<rparr>, db)
         | Some userId \<Rightarrow>
             (case findRegistration (registrations db) ident userId of
                None \<Rightarrow>
                  (\<lparr>status = 404, message = ''Voce nao esta registrada neste evento''\<rparr>, db)
              | Some registration \<Rightarrow>
                  (\<lparr>status = 200, message = ''Inscricao cancelada com sucesso''\<rparr>,
                   db\<lparr>registrations :=
                        map (\<lambda>r. if eventRegistration_eventId r = ident
                                     \<and> eventRegistration_userId r = userId
                                  then r\<lparr>eventRegistration_status := CANCELLED,
                                         eventRegistration_cancelledAt := Some now\<rparr>
                                  else r) (registrations db)\<rparr>))))"

text \<open>
  \<^verbatim>\<open>publishEvent\<close> updates the row with the given identifier; the ORM throws when there
  is none.
\<close>

definition publishEvent :: "string \<Rightarrow> events_db \<Rightarrow> response \<times> events_db" where
  "publishEvent ident db =
     (if ident \<notin> set (map event_id (events db)) then
        (\<lparr>status = 500, message = ''Erro ao publicar evento''\<rparr>, db)
      else
        (\<lparr>status = 200, message = ''Evento publicado com sucesso''\<rparr>,
         db\<lparr>events := map (\<lambda>e. if event_id e = ident then e\<lparr>event_isPublished := True\<rparr> else e)
                          (events db)\<rparr>))"

text \<open>
  One step of the events database. \<^verbatim>\<open>createEvent\<close> (and the seed script) only insert
  event rows, and no handler deletes an event, unpublishes one or deletes a registration;
  the first rule covers every such insert.
\<close>

inductive events_step :: "events_db \<Rightarrow> events_db \<Rightarrow> bool" where
  step_createEvent: "events_step db (db\<lparr>events := events db @ [event]\<rparr>)"
| step_publishEvent: "events_step db (snd (publishEvent ident db))"
| step_registerForEvent: "events_step db (snd (registerForEvent reqUser ident db))"
| step_cancelRegistration: "events_step db (snd (cancelRegistration now reqUser ident db))"

inductive events_reachable :: "events_db \<Rightarrow> bool" where
  events_init: "events_reachable \<lparr>events = [], registrations = []\<rparr>"
| events_next: "events_reachable db \<Longrightarrow> events_step db db' \<Longrightarrow> events_reachable db'"

text \<open>
  Two invariants of the events database, and the row update of \<^verbatim>\<open>cancelRegistration\<close>
  by name: every registration belongs to a published event; the registration of a user
  for an event exists and is cancelled.
\<close>

definition registrations_published :: "events_db \<Rightarrow> bool" where
  "registrations_published db =
     (\<forall>r \<in> set (registrations db).
        \<exists>e \<in> set (events db). event_id e = eventRegistration_eventId r \<and> event_isPublished e)"

definition cancelled_row :: "events_db \<Rightarrow> string \<Rightarrow> string \<Rightarrow> bool" where
  "cancelled_row db eventId userId =
     (findRegistration (registrations db) eventId userId \<noteq> None
      \<and> (\<forall>r \<in> set (registrations db).
            eventRegistration_eventId r = eventId \<and> eventRegistration_userId r = userId
            \<longrightarrow> eventRegistration_status r = CANCELLED))"

definition cancelRow :: "int \<Rightarrow> string \<Rightarrow> string \<Rightarrow> eventRegistration \<Rightarrow> eventRegistration" where
  "cancelRow now eventId userId r =
     (if eventRegistration_eventId r = eventId \<and> eventRegistration_userId r = userId
      then r\<lparr>eventRegistration_status := CANCELLED, eventRegistration_cancelledAt := Some now\<rparr>
      else r)"

section \<open>Reactions\<close>

text \<open>
  Source: \<^verbatim>\<open>toggleReaction\<close> of the community controller. A reaction row holds what the
  handler writes: the type, the post and the mother profile of the user.
\<close>

record reaction =
  reaction_type :: string
  reaction_postId :: string
  reaction_userId :: string

record community_db =
  posts :: "string list"
  reactions :: "reaction list"

definition findReaction :: "reaction list \<Rightarrow> string \<Rightarrow> string \<Rightarrow> reaction option" where
  "findReaction rows postId userId =
     find (\<lambda>r. reaction_postId r = postId \<and> reaction_userId r = userId) rows"

text \<open>
  Modelled from the spec: the relational schema (\<^verbatim>\<open>prisma/schema.prisma\<close>) is missing
  from the sources. By the persisted state layout of the specification, foreign keys
  enforce the ownership relationships: the insert of a reaction throws (\<open>None\<close>) when
  the post does not exist. Posts are soft deleted, so a post row, once inserted, stays.
  The unique constraint on the pair of post and user is not part of the insert: it is
  proved below as an invariant of the handler.
\<close>

definition prisma_reaction_create :: "reaction \<Rightarrow> community_db \<Rightarrow> reaction list option" where
  "prisma_reaction_create row db =
     (if reaction_postId row \<notin> set (posts db) then None else Some (reactions db @ [row]))"

text \<open>\<^verbatim>\<open>['HEART', 'SUPPORT', 'CELEBRATE'].includes(type)\<close>\<close>

definition validType :: "string option \<Rightarrow> bool" where
  "validType type = (type \<in> set [Some ''HEART'', Some ''SUPPORT'', Some ''CELEBRATE''])"

definition toggleReaction ::
  "user \<Rightarrow> string \<Rightarrow> body \<Rightarrow> community_db \<Rightarrow> response \<times> community_db" where
  "toggleReaction reqUser ident reqBody db =
     (if user_role reqUser \<noteq> MOTHER then
        (\<lparr>status = 403, message = ''Apenas maes podem reagir''\<rparr>, db)
      else
        (let type = reqBody ''type''
         in if \<not> validType type then
              (\<lparr>status = 400, message = ''Tipo de reacao invalido''\<rparr>, db)
            else
              (case user_motherProfile reqUser of
                 None \<Rightarrow> (\<lparr>status = 500, message = ''Erro ao processar reacao''\<rparr>, db)
               | Some userId \<Rightarrow>
                   (case findReaction (reactions db) ident userId of
                      Some existing \<Rightarrow>
                        (\<lparr>status = 200, message = ''Reacao removida''\<rparr>,
                         db\<lparr>reactions :=
                              filter (\<lambda>r. \<not> (reaction_postId r = ident
                                                \<and> reaction_userId r = userId))
                                (reactions db)\<rparr>)
                    | None \<Rightarrow>
                        (case prisma_reaction_create
                                \<lparr>reaction_type = the type, reaction_postId = ident,
                                 reaction_userId = userId\<rparr> db of
                           None \<Rightarrow>
                             (\<lparr>status = 500, message = ''Erro ao processar reacao''\<rparr>, db)
                         | Some rows \<Rightarrow>
                             (\<lparr>status = 201, message = ''Reacao adicionada''\<rparr>,
                              db\<lparr>reactions := rows\<rparr>))))))"

definition reactionCount :: "community_db \<Rightarrow> string \<Rightarrow> nat" where
  "reactionCount db postId =
     length (filter (\<lambda>r. reaction_postId r = postId) (reactions db))"

definition pairCount :: "community_db \<Rightarrow> string \<Rightarrow> string \<Rightarrow> nat" where
  "pairCount db postId userId =
     length (filter (\<lambda>r. reaction_postId r = postId \<and> reaction_userId r = userId)
               (reactions db))"

text \<open>
  The states of the community tables: \<^verbatim>\<open>createPost\<close> inserts post rows, and
  \<^verbatim>\<open>toggleReaction\<close> is the only writer of the reaction table.
\<close>

inductive community_reachable :: "community_db \<Rightarrow> bool" where
  community_init: "community_reachable \<lparr>posts = [], reactions = []\<rparr>"
| community_createPost:
    "community_reachable db \<Longrightarrow> community_reachable (db\<lparr>posts := posts db @ [post]\<rparr>)"
| community_toggle:
    "community_reachable db \<Longrightarrow>
     community_reachable (snd (toggleReaction reqUser ident reqBody db))"

text \<open>
  The invariant of the community tables: every reaction belongs to a post row, and no
  pair of a post and a user has more than one reaction row.
\<close>

definition reactions_consistent :: "community_db \<Rightarrow> bool" where
  "reactions_consistent db =
     ((\<forall>r \<in> set (reactions db). reaction_postId r \<in> set (posts db))
      \<and> (\<forall>postId userId. pairCount db postId userId \<le> 1))"

section \<open>Example data\<close>

definition maria :: user where
  "maria = \<lparr>user_id = ''u1'', user_email = ''maria.silva@example.com'',
     user_passwordHash = ''#password123'', user_role = MOTHER, user_isVerified = False,
     user_motherProfile = Some ''m1'', user_collaboratorProfile = None\<rparr>"

definition mariaBody :: body where
  "mariaBody = [''email'' \<mapsto> ''maria.silva@example.com'', ''password'' \<mapsto> ''password123'',
     ''role'' \<mapsto> ''MOTHER'', ''fullName'' \<mapsto> ''Maria Silva'']"

definition hashWith :: "string \<Rightarrow> string" where
  "hashWith password = CHR ''#'' # password"

definition compareWith :: "string \<Rightarrow> string \<Rightarrow> bool" where
  "compareWith password passwordHash = (passwordHash = hashWith password)"

definition workshop :: event where
  "workshop = \<lparr>event_id = ''e1'', event_isPublished = True, event_capacity = Some 1,
     event_waitlistEnabled = False\<rparr>"

definition shortBody :: body where
  "shortBody = [''email'' \<mapsto> ''maria.silva@example.com'', ''password'' \<mapsto> ''abc'',
     ''role'' \<mapsto> ''MOTHER'', ''fullName'' \<mapsto> ''Maria Silva'']"

definition wrongBody :: json_body where
  "wrongBody = [''email'' \<mapsto> JString ''maria.silva@example.com'',
     ''password'' \<mapsto> JString ''guess'']"

definition unknownBody :: json_body where
  "unknownBody = [''email'' \<mapsto> JString ''nobody@example.com'',
     ''password'' \<mapsto> JString ''guess'']"

definition numericKnownBody :: json_body where
  "numericKnownBody = [''email'' \<mapsto> JString ''maria.silva@example.com'',
     ''password'' \<mapsto> JNumber 123456]"

definition numericUnknownBody :: json_body where
  "numericUnknownBody = [''email'' \<mapsto> JString ''nobody@example.com'',
     ''password'' \<mapsto> JNumber 123456]"

definition verifyWith :: "string option \<Rightarrow> jwt_error + claims" where
  "verifyWith token =
     (if token = Some ''good'' then
        Inr \<lparr>claims_userId = Some ''u1'', claims_email = ''maria.silva@example.com'',
             claims_role = MOTHER\<rparr>
      else if token = Some ''ghost'' then
        Inr \<lparr>claims_userId = Some ''u9'', claims_email = ''ghost@example.com'',
             claims_role = MOTHER\<rparr>
      else if token = Some ''old'' then Inl TokenExpiredError
      else Inl JsonWebTokenError)"

definition carla :: user where
  "carla = \<lparr>user_id = ''u3'', user_email = ''doula.carla@example.com'',
     user_passwordHash = ''#collab123'', user_role = COLLABORATOR, user_isVerified = True,
     user_motherProfile = None, user_collaboratorProfile = Some ''c1''\<rparr>"

definition fullDb :: events_db where
  "fullDb = \<lparr>events = [workshop],
     registrations = [\<lparr>eventRegistration_eventId = ''e1'', eventRegistration_userId = ''m2'',
        eventRegistration_status = REGISTERED, eventRegistration_cancelledAt = None\<rparr>]\<rparr>"

definition zeroDb :: events_db where
  "zeroDb = \<lparr>events = [workshop\<lparr>event_capacity := Some 0\<rparr>], registrations = []\<rparr>"

definition registeredDb :: events_db where
  "registeredDb = \<lparr>events = [workshop],
     registrations = [\<lparr>eventRegistration_eventId = ''e1'', eventRegistration_userId = ''m1'',
        eventRegistration_status = REGISTERED, eventRegistration_cancelledAt = None\<rparr>]\<rparr>"

definition cancelledDb :: events_db where
  "cancelledDb = \<lparr>events = [workshop],
     registrations = [\<lparr>eventRegistration_eventId = ''e1'', eventRegistration_userId = ''m1'',
        eventRegistration_status = CANCELLED, eventRegistration_cancelledAt = Some 5\<rparr>]\<rparr>"

definition heartRow :: reaction where
  "heartRow = \<lparr>reaction_type = ''HEART'', reaction_postId = ''p1'', reaction_userId = ''m1''\<rparr>"

definition supportRow :: reaction where
  "supportRow = \<lparr>reaction_type = ''SUPPORT'', reaction_postId = ''p1'', reaction_userId = ''m1''\<rparr>"

definition noReactionDb :: community_db where
  "noReactionDb = \<lparr>posts = [''p1''], reactions = []\<rparr>"

definition heartDb :: community_db where
  "heartDb = \<lparr>posts = [''p1''], reactions = [heartRow]\<rparr>"

definition supportDb :: community_db where
  "supportDb = \<lparr>posts = [''p1''], reactions = [supportRow]\<rparr>"

definition heartBody :: body where
  "heartBody = [''type'' \<mapsto> ''HEART'']"

definition supportBody :: body where
  "supportBody = [''type'' \<mapsto> ''SUPPORT'']"

definition mariaProfile :: motherProfile where
  "mariaProfile = \<lparr>motherProfile_id = ''m1'', motherProfile_userId = ''u1''\<rparr>"

definition parseWith :: "string \<Rightarrow> int option" where
  "parseWith date = (if date = ''1970-03-26'' then Some 7257600000 else None)"

definition dueBody :: body where
  "dueBody = [''dueDate'' \<mapsto> ''1970-03-26'']"



definition firstPregnancy :: pregnancy where
  "firstPregnancy = \<lparr>pregnancy_id = ''g1'', pregnancy_motherProfileId = ''m1'',
     pregnancy_dueDate = 7257600000, pregnancy_currentWeek = 28, pregnancy_status = ACTIVE\<rparr>"



definition activeDb :: pregnancy_db where
  "activeDb = \<lparr>motherProfiles = [mariaProfile], pregnancies = [firstPregnancy]\<rparr>"




section \<open>Properties of the week calculator\<close>

lemma millisecondsPerWeek_value: "millisecondsPerWeek = 604800000"
  by (simp add: millisecondsPerWeek_def)

lemma currentWeek_floor_div:
  "\<lfloor>weeksSinceLMP - (of_int d :: rat) / of_int millisecondsPerWeek\<rfloor>
     = 40 + (- d) div millisecondsPerWeek"
proof -
  have "weeksSinceLMP - (of_int d :: rat) / of_int millisecondsPerWeek
          = of_int (- d) / of_int millisecondsPerWeek + of_int 40"
    by (simp add: weeksSinceLMP_def)
  moreover have "\<lfloor>(of_int (- d) :: rat) / of_int millisecondsPerWeek + of_int 40\<rfloor>
          = \<lfloor>(of_int (- d) :: rat) / of_int millisecondsPerWeek\<rfloor> + 40"
    by (rule floor_add_int [symmetric])
  moreover have "\<lfloor>(of_int (- d) :: rat) / of_int millisecondsPerWeek\<rfloor>
          = (- d) div millisecondsPerWeek"
    by (rule floor_divide_of_int_eq)
  ultimately show ?thesis by linarith
qed

lemma calculateCurrentWeek_div:
  "calculateCurrentWeek now due = max 1 (min 40 (40 + (now - due) div millisecondsPerWeek))"
  using currentWeek_floor_div [of "due - now"]
  by (simp add: calculateCurrentWeek_def Let_def)

lemma spec_weeksRemaining_div:
  "spec_weeksRemaining now due = (due - now) div millisecondsPerWeek"
  by (simp only: spec_weeksRemaining_def floor_divide_of_int_eq)

lemma calculateCurrentWeek_ceiling:
  "calculateCurrentWeek now due =
     max 1 (min 40 (40 - \<lceil>(of_int (due - now) :: rat) / of_int millisecondsPerWeek\<rceil>))"
proof -
  have "(of_int (now - due) :: rat) = - of_int (due - now)"
    by simp
  then have "- ((of_int (due - now) :: rat) / of_int millisecondsPerWeek)
          = of_int (now - due) / of_int millisecondsPerWeek"
    by (simp only: minus_divide_left)
  then have "\<lceil>(of_int (due - now) :: rat) / of_int millisecondsPerWeek\<rceil>
          = - \<lfloor>(of_int (now - due) :: rat) / of_int millisecondsPerWeek\<rfloor>"
    unfolding ceiling_def by (rule arg_cong)
  also have "\<dots> = - ((now - due) div millisecondsPerWeek)"
    by (simp only: floor_divide_of_int_eq)
  finally show ?thesis
    by (simp add: calculateCurrentWeek_div)
qed

lemma calculateCurrentWeek_whole_weeks:
  assumes "millisecondsPerWeek dvd due - now"
  shows "calculateCurrentWeek now due = spec_currentWeek now due"
proof -
  from assms obtain k where k: "due - now = millisecondsPerWeek * k" ..
  then have "now - due = millisecondsPerWeek * (- k)" by simp
  then have "(now - due) div millisecondsPerWeek = - k"
    by (simp add: millisecondsPerWeek_value)
  moreover from k have "(due - now) div millisecondsPerWeek = k"
    by (simp add: millisecondsPerWeek_value)
  ultimately show ?thesis
    by (simp add: calculateCurrentWeek_div spec_currentWeek_def spec_weeksRemaining_div)
qed

text \<open>
  C1, as stated, fails: the source rounds the difference \<open>40 - weeksUntilDue\<close> down, which
  rounds the number of remaining weeks up, not down. With the due date three and a half
  days away the source returns week 39, and the formula of the specification week 40.
\<close>

theorem calculateCurrentWeek_rounding_counterexample:
  "calculateCurrentWeek 0 302400000 = 39 \<and> spec_currentWeek 0 302400000 = 40"
  by (simp add: calculateCurrentWeek_div spec_currentWeek_def spec_weeksRemaining_div
      millisecondsPerWeek_value)

text \<open>
  C1, amended: the calculator is a function of the due date and the current time that
  returns forty minus the number of remaining weeks, clamped to 1..40, where the number
  of remaining weeks is the quotient of the remaining time by seven days rounded up. It
  agrees with the formula of the specification whenever the remaining time is a whole
  number of weeks; a due date exactly twelve weeks away gives week 28.
\<close>

theorem calculateCurrentWeek_formula:
  "calculateCurrentWeek now due =
     max 1 (min 40 (40 - \<lceil>(of_int (due - now) :: rat) / of_int millisecondsPerWeek\<rceil>))
   \<and> (millisecondsPerWeek dvd due - now \<longrightarrow>
        calculateCurrentWeek now due = spec_currentWeek now due)
   \<and> calculateCurrentWeek now (now + 12 * millisecondsPerWeek) = 28"
proof -
  have "calculateCurrentWeek now (now + 12 * millisecondsPerWeek) = 28"
    by (simp add: calculateCurrentWeek_div millisecondsPerWeek_value)
  then show ?thesis
    using calculateCurrentWeek_ceiling calculateCurrentWeek_whole_weeks by blast
qed

theorem calculateCurrentWeek_formula_witness:
  "millisecondsPerWeek dvd 7257600000 - 0
   \<and> calculateCurrentWeek 0 7257600000 = spec_currentWeek 0 7257600000
   \<and> calculateCurrentWeek 0 (0 + 12 * millisecondsPerWeek) = 28"
proof -
  have d: "millisecondsPerWeek dvd 7257600000 - 0"
    by (simp add: millisecondsPerWeek_value)
  with calculateCurrentWeek_formula [of 0 7257600000] show ?thesis by blast
qed

text \<open>
  C8: the computed week lies in 1..40, and for a fixed due date it does not decrease as
  the current time advances.
\<close>

theorem calculateCurrentWeek_range_mono:
  "now1 \<le> now2 \<Longrightarrow>
     1 \<le> calculateCurrentWeek now1 due \<and> calculateCurrentWeek now1 due \<le> 40
     \<and> calculateCurrentWeek now1 due \<le> calculateCurrentWeek now2 due"
proof -
  assume "now1 \<le> now2"
  then have "(now1 - due) div millisecondsPerWeek \<le> (now2 - due) div millisecondsPerWeek"
    by (intro zdiv_mono1) (simp_all add: millisecondsPerWeek_value)
  then show ?thesis
    by (simp add: calculateCurrentWeek_div)
qed

theorem calculateCurrentWeek_range_mono_witness:
  "(0::int) \<le> 604800000
   \<and> calculateCurrentWeek 0 7257600000 = 28
   \<and> calculateCurrentWeek 604800000 7257600000 = 29"
proof -
  have "calculateCurrentWeek 0 7257600000 = 28"
    and "calculateCurrentWeek 604800000 7257600000 = 29"
    by (simp_all add: calculateCurrentWeek_div millisecondsPerWeek_value)
  with calculateCurrentWeek_range_mono [of 0 604800000 7257600000] show ?thesis by simp
qed

section \<open>Properties of the account handlers\<close>

lemma find_email_Some:
  "email \<in> set (map user_email users) \<Longrightarrow>
     \<exists>u. find (\<lambda>u. user_email u = email) users = Some u"
  by (induction users) auto

lemma register_unchanged_or_appended:
  "snd (register h i p b users) = users
   \<or> (\<exists>u. snd (register h i p b users) = users @ [u]
          \<and> user_email u \<notin> set (map user_email users))"
  by (auto simp add: register_def Let_def case_prod_beta prisma_user_create_def
      split: option.splits if_splits)

lemma changePassword_emails:
  "map user_email (snd (changePassword c h i b users)) = map user_email users"
  by (auto simp add: changePassword_def Let_def split: option.splits)

lemma users_reachable_distinct: "users_reachable users \<Longrightarrow> distinct (map user_email users)"
proof (induction rule: users_reachable.induct)
  case users_init
  show ?case by simp
next
  case (users_register users bcrypt_hash newId newProfileId reqBody)
  from register_unchanged_or_appended [of bcrypt_hash newId newProfileId reqBody users]
  show ?case using users_register.IH by auto
next
  case (users_changePassword users bcrypt_compare bcrypt_hash userId reqBody)
  then show ?case by (simp add: changePassword_emails)
qed

lemma reachable_maria: "users_reachable [maria]"
proof -
  have "snd (register hashWith ''u1'' ''m1'' mariaBody []) = [maria]"
    by (simp add: register_def validateRequiredFields_def truthy_def mariaBody_def
        isValidEmail_def isValidPassword_def isSpace_def prisma_user_create_def maria_def
        hashWith_def Let_def)
  with users_register [OF users_init, of hashWith "''u1''" "''m1''" mariaBody]
  show ?thesis by simp
qed

text \<open>
  C5, as stated, fails: the duplicate check comes after the validation of the fields. A
  request that carries the email of an existing account and a password of three
  characters is answered 400, not 409.
\<close>

theorem register_duplicate_email_counterexample:
  "shortBody ''email'' = Some (user_email maria)
   \<and> register hashWith ''u2'' ''m2'' shortBody [maria] =
       (\<lparr>status = 400, message = ''A senha deve ter pelo menos 6 caracteres''\<rparr>, [maria])"
  by (simp add: register_def validateRequiredFields_def truthy_def shortBody_def
      isValidEmail_def isValidPassword_def isSpace_def maria_def Let_def)

text \<open>
  C5, amended: a registration request whose email already belongs to an account creates
  no account; it is answered 409 when it passes the validation of its fields (all four
  required fields present, a well-formed email, a password of six characters or more, the
  role MOTHER or COLLABORATOR) and 400 when it does not. In every reachable state of the
  table no two accounts share an email.
\<close>

theorem register_duplicate_email:
  "(reqBody ''email'' = Some email \<and> email \<in> set (map user_email users) \<longrightarrow>
      snd (register bcrypt_hash newId newProfileId reqBody users) = users
      \<and> (register_validates reqBody \<longrightarrow>
           fst (register bcrypt_hash newId newProfileId reqBody users) =
             \<lparr>status = 409, message = ''Este email ja esta cadastrado''\<rparr>)
      \<and> (\<not> register_validates reqBody \<longrightarrow>
           status (fst (register bcrypt_hash newId newProfileId reqBody users)) = 400))
   \<and> (users_reachable users \<longrightarrow> distinct (map user_email users))"
proof -
  have "snd (register bcrypt_hash newId newProfileId reqBody users) = users
      \<and> (register_validates reqBody \<longrightarrow>
           fst (register bcrypt_hash newId newProfileId reqBody users) =
             \<lparr>status = 409, message = ''Este email ja esta cadastrado''\<rparr>)
      \<and> (\<not> register_validates reqBody \<longrightarrow>
           status (fst (register bcrypt_hash newId newProfileId reqBody users)) = 400)"
    if e: "reqBody ''email'' = Some email" and m: "email \<in> set (map user_email users)"
  proof -
    from find_email_Some [OF m]
    obtain u where "find (\<lambda>u. user_email u = email) users = Some u" ..
    with e show ?thesis
      by (simp add: register_def register_validates_def Let_def case_prod_beta)
  qed
  then show ?thesis using users_reachable_distinct by blast
qed

theorem register_duplicate_email_witness:
  "mariaBody ''email'' = Some ''maria.silva@example.com''
   \<and> ''maria.silva@example.com'' \<in> set (map user_email [maria])
   \<and> register_validates mariaBody
   \<and> users_reachable [maria]
   \<and> register hashWith ''u2'' ''m2'' mariaBody [maria] =
        (\<lparr>status = 409, message = ''Este email ja esta cadastrado''\<rparr>, [maria])
   \<and> distinct (map user_email [maria])"
proof -
  have 1: "mariaBody ''email'' = Some ''maria.silva@example.com''"
    by (simp add: mariaBody_def)
  have 2: "''maria.silva@example.com'' \<in> set (map user_email [maria])"
    by (simp add: maria_def)
  have 3: "register_validates mariaBody"
    by (simp add: register_validates_def validateRequiredFields_def truthy_def mariaBody_def
        isValidEmail_def isValidPassword_def isSpace_def)
  note 4 = reachable_maria
  from register_duplicate_email
         [of mariaBody "''maria.silva@example.com''" "[maria]" hashWith "''u2''" "''m2''"]
       1 2 3 4
  show ?thesis by (simp add: prod_eq_iff)
qed

text \<open>
  What the handler does when both fields are strings: a login that fails because no
  account has the given email and a login that fails because the password does not match
  the stored hash get the same response, 401 with the one generic message.
\<close>

lemma login_string_failures:
  assumes "body1 ''email'' = Some (JString email1)"
    and "body1 ''password'' = Some (JString password1)"
    and "email1 \<noteq> []" and "password1 \<noteq> []"
    and "find (\<lambda>u. user_email u = email1) users1 = None"
    and "body2 ''email'' = Some (JString email2)"
    and "body2 ''password'' = Some (JString password2)"
    and "email2 \<noteq> []" and "password2 \<noteq> []"
    and "find (\<lambda>u. user_email u = email2) users2 = Some account"
    and "\<not> bcrypt_compare password2 (user_passwordHash account)"
  shows "login bcrypt_compare body1 users1 =
           \<lparr>status = 401, message = ''Email ou senha incorretos''\<rparr>
       \<and> login bcrypt_compare body2 users2 =
           \<lparr>status = 401, message = ''Email ou senha incorretos''\<rparr>"
  using assms
  by (simp add: login_def validateRequiredFields_json_def truthy_json_def Let_def)

lemma login_string_failures_example:
  "login compareWith unknownBody [maria] =
     \<lparr>status = 401, message = ''Email ou senha incorretos''\<rparr>
   \<and> login compareWith wrongBody [maria] =
     \<lparr>status = 401, message = ''Email ou senha incorretos''\<rparr>"
  by (simp add: login_def validateRequiredFields_json_def truthy_json_def unknownBody_def
      wrongBody_def maria_def compareWith_def hashWith_def Let_def)

text \<open>
  C7 does not hold of the code. The handler does not test that the password is a string.
  With the number 123456 as password the body passes the validation; for the email of
  an account \<^verbatim>\<open>bcrypt.compare\<close> rejects and the handler answers 500, for an unknown
  email it answers 401 before it compares. The two responses tell the caller whether the
  email exists.
\<close>

theorem login_reveals_known_email:
  "fst (validateRequiredFields_json numericKnownBody [''email'', ''password''])
   \<and> fst (validateRequiredFields_json numericUnknownBody [''email'', ''password''])
   \<and> numericKnownBody ''password'' = numericUnknownBody ''password''
   \<and> find (\<lambda>u. user_email u = ''maria.silva@example.com'') [maria] = Some maria
   \<and> find (\<lambda>u. user_email u = ''nobody@example.com'') [maria] = None
   \<and> login compareWith numericKnownBody [maria] =
        \<lparr>status = 500, message = ''Erro ao fazer login''\<rparr>
   \<and> login compareWith numericUnknownBody [maria] =
        \<lparr>status = 401, message = ''Email ou senha incorretos''\<rparr>"
  by (simp add: login_def validateRequiredFields_json_def truthy_json_def
      numericKnownBody_def numericUnknownBody_def maria_def Let_def)

section \<open>Properties of the authentication gate\<close>

text \<open>
  C6: the gate answers 401 and does not call the downstream handler when the header is
  absent or does not start with \<^verbatim>\<open>Bearer \<close>, when the token fails verification (with one
  answer whatever the error), and when the decoded claims name no account; otherwise it
  calls the handler with the account, its identifier and its role in the request.
\<close>

theorem authenticate_gate:
  "(\<not> truthy authHeader \<or> \<not> startsWith (the authHeader) ''Bearer '' \<longrightarrow>
      authenticate verifyToken users authHeader =
        Responded \<lparr>status = 401, message = ''Token de autenticacao nao fornecido''\<rparr>)
   \<and> (truthy authHeader \<and> startsWith (the authHeader) ''Bearer '' \<longrightarrow>
        (verifyToken (bearerToken (the authHeader)) = Inl error \<longrightarrow>
           authenticate verifyToken users authHeader =
             Responded \<lparr>status = 401, message = ''Token invalido ou expirado''\<rparr>)
      \<and> (verifyToken (bearerToken (the authHeader)) = Inr decoded \<longrightarrow>
           (claims_userId decoded = None \<longrightarrow>
              authenticate verifyToken users authHeader =
                Responded \<lparr>status = 401, message = ''Token invalido ou expirado''\<rparr>)
         \<and> (claims_userId decoded = Some userId \<longrightarrow>
              (find (\<lambda>u. user_id u = userId) users = None \<longrightarrow>
                 authenticate verifyToken users authHeader =
                   Responded \<lparr>status = 401, message = ''Usuario nao encontrado''\<rparr>)
            \<and> (find (\<lambda>u. user_id u = userId) users = Some account \<longrightarrow>
                 authenticate verifyToken users authHeader =
                   Next \<lparr>req_user = account, req_userId = user_id account,
                         req_userRole = user_role account\<rparr>))))"
  by (simp add: authenticate_def Let_def)

theorem authenticate_gate_witness:
  "authenticate verifyWith [maria] None =
     Responded \<lparr>status = 401, message = ''Token de autenticacao nao fornecido''\<rparr>
   \<and> authenticate verifyWith [maria] (Some ''Basic good'') =
     Responded \<lparr>status = 401, message = ''Token de autenticacao nao fornecido''\<rparr>
   \<and> authenticate verifyWith [maria] (Some ''Bearer old'') =
     Responded \<lparr>status = 401, message = ''Token invalido ou expirado''\<rparr>
   \<and> authenticate verifyWith [maria] (Some ''Bearer forged'') =
     Responded \<lparr>status = 401, message = ''Token invalido ou expirado''\<rparr>
   \<and> authenticate verifyWith [maria] (Some ''Bearer ghost'') =
     Responded \<lparr>status = 401, message = ''Usuario nao encontrado''\<rparr>
   \<and> authenticate verifyWith [maria] (Some ''Bearer good'') =
     Next \<lparr>req_user = maria, req_userId = ''u1'', req_userRole = MOTHER\<rparr>"
proof -
  have t: "bearerToken ''Bearer old'' = Some ''old''"
    "bearerToken ''Bearer forged'' = Some ''forged''"
    "bearerToken ''Bearer ghost'' = Some ''ghost''"
    "bearerToken ''Bearer good'' = Some ''good''"
    by (simp_all add: bearerToken_def)
  have h: "\<not> truthy None" "\<not> startsWith ''Basic good'' ''Bearer ''"
    "truthy (Some ''Bearer old'') \<and> startsWith ''Bearer old'' ''Bearer ''"
    "truthy (Some ''Bearer forged'') \<and> startsWith ''Bearer forged'' ''Bearer ''"
    "truthy (Some ''Bearer ghost'') \<and> startsWith ''Bearer ghost'' ''Bearer ''"
    "truthy (Some ''Bearer good'') \<and> startsWith ''Bearer good'' ''Bearer ''"
    by (simp_all add: truthy_def startsWith_def)
  have v: "verifyWith (Some ''old'') = Inl TokenExpiredError"
    "verifyWith (Some ''forged'') = Inl JsonWebTokenError"
    "verifyWith (Some ''ghost'') =
       Inr \<lparr>claims_userId = Some ''u9'', claims_email = ''ghost@example.com'',
            claims_role = MOTHER\<rparr>"
    "verifyWith (Some ''good'') =
       Inr \<lparr>claims_userId = Some ''u1'', claims_email = ''maria.silva@example.com'',
            claims_role = MOTHER\<rparr>"
    by (simp_all add: verifyWith_def)
  have f: "find (\<lambda>u. user_id u = ''u9'') [maria] = None"
    "find (\<lambda>u. user_id u = ''u1'') [maria] = Some maria"
    "user_id maria = ''u1''" "user_role maria = MOTHER"
    by (simp_all add: maria_def)
  have 1: "authenticate verifyWith [maria] None =
     Responded \<lparr>status = 401, message = ''Token de autenticacao nao fornecido''\<rparr>"
    using authenticate_gate [of None verifyWith "[maria]"] h by simp
  have 2: "authenticate verifyWith [maria] (Some ''Basic good'') =
     Responded \<lparr>status = 401, message = ''Token de autenticacao nao fornecido''\<rparr>"
    using authenticate_gate [of "Some ''Basic good''" verifyWith "[maria]"] h by simp
  have 3: "authenticate verifyWith [maria] (Some ''Bearer old'') =
     Responded \<lparr>status = 401, message = ''Token invalido ou expirado''\<rparr>"
    using authenticate_gate [of "Some ''Bearer old''" verifyWith "[maria]" TokenExpiredError]
      h t v by simp
  have 4: "authenticate verifyWith [maria] (Some ''Bearer forged'') =
     Responded \<lparr>status = 401, message = ''Token invalido ou expirado''\<rparr>"
    using authenticate_gate [of "Some ''Bearer forged''" verifyWith "[maria]" JsonWebTokenError]
      h t v by simp
  have 5: "authenticate verifyWith [maria] (Some ''Bearer ghost'') =
     Responded \<lparr>status = 401, message = ''Usuario nao encontrado''\<rparr>"
    using authenticate_gate [of "Some ''Bearer ghost''" verifyWith "[maria]" _
        "\<lparr>claims_userId = Some ''u9'', claims_email = ''ghost@example.com'',
          claims_role = MOTHER\<rparr>" "''u9''"]
      h t v f by simp
  have 6: "authenticate verifyWith [maria] (Some ''Bearer good'') =
     Next \<lparr>req_user = maria, req_userId = ''u1'', req_userRole = MOTHER\<rparr>"
    using authenticate_gate [of "Some ''Bearer good''" verifyWith "[maria]" _
        "\<lparr>claims_userId = Some ''u1'', claims_email = ''maria.silva@example.com'',
          claims_role = MOTHER\<rparr>" "''u1''" maria]
      h t v f by simp
  from 1 2 3 4 5 6 show ?thesis by simp
qed

section \<open>Properties of event registration\<close>

text \<open>
  C3, as stated, fails in three ways. The source tests the capacity by truthiness, so an
  event with capacity 0 has no limit: with no registration, which is already at the
  capacity, and the waitlist disabled, the registration is accepted with status
  Registered. The duplicate check matches a row of any status: a mother whose
  registration is cancelled is answered 409 although the event is below its capacity.
  And the handler answers 403 to every user who is not a mother, whatever the capacity.
\<close>

theorem registerForEvent_capacity_counterexample:
  "find (\<lambda>e. event_id e = ''e1'' \<and> event_isPublished e) (events zeroDb)
      = Some (workshop\<lparr>event_capacity := Some 0\<rparr>)
   \<and> \<not> event_waitlistEnabled (workshop\<lparr>event_capacity := Some 0\<rparr>)
   \<and> registeredCount zeroDb ''e1'' \<ge> 0
   \<and> findRegistration (registrations zeroDb) ''e1'' ''m1'' = None
   \<and> registerForEvent maria ''e1'' zeroDb =
       (\<lparr>status = 201, message = ''Inscricao realizada com sucesso''\<rparr>,
        zeroDb\<lparr>registrations :=
          [\<lparr>eventRegistration_eventId = ''e1'', eventRegistration_userId = ''m1'',
            eventRegistration_status = REGISTERED, eventRegistration_cancelledAt = None\<rparr>]\<rparr>)
   \<and> event_capacity workshop = Some 1
   \<and> registeredCount cancelledDb ''e1'' < 1
   \<and> registerForEvent maria ''e1'' cancelledDb =
       (\<lparr>status = 409, message = ''Voce ja esta registrada neste evento''\<rparr>, cancelledDb)
   \<and> registeredCount fullDb ''e1'' \<ge> 1
   \<and> registerForEvent carla ''e1'' fullDb =
       (\<lparr>status = 403, message = ''Apenas maes podem se registrar em eventos''\<rparr>, fullDb)"
  by (simp add: registerForEvent_def zeroDb_def fullDb_def cancelledDb_def workshop_def
      maria_def carla_def registeredCount_def findRegistration_def Let_def)

text \<open>
  C3, amended. A user who is not a mother is answered 403. For a published event and a
  mother with a mother profile: if a registration row of hers for the event exists, of
  any status, she is answered 409; if none exists and the event has a capacity other than
  0, the registration is rejected with 400 when the number of rows with status Registered
  has reached the capacity and the waitlist is disabled, creates a row with status
  Waitlist when it has reached the capacity and the waitlist is enabled, and creates a
  row with status Registered when it is below the capacity; if none exists and the
  capacity is absent or 0, there is no limit and the row is created with status
  Registered.
\<close>

theorem registerForEvent_capacity:
  "(user_role reqUser \<noteq> MOTHER \<longrightarrow>
      registerForEvent reqUser ident db =
        (\<lparr>status = 403, message = ''Apenas maes podem se registrar em eventos''\<rparr>, db))
   \<and> (user_role reqUser = MOTHER \<and> user_motherProfile reqUser = Some userId
        \<and> find (\<lambda>e. event_id e = ident \<and> event_isPublished e) (events db) = Some event \<longrightarrow>
        (findRegistration (registrations db) ident userId = Some existing \<longrightarrow>
           registerForEvent reqUser ident db =
             (\<lparr>status = 409, message = ''Voce ja esta registrada neste evento''\<rparr>, db))
      \<and> (findRegistration (registrations db) ident userId = None \<longrightarrow>
           (event_capacity event = Some capacity \<and> capacity \<noteq> 0 \<longrightarrow>
              (registeredCount db ident \<ge> capacity \<and> \<not> event_waitlistEnabled event \<longrightarrow>
                 registerForEvent reqUser ident db =
                   (\<lparr>status = 400, message = ''Este evento esta lotado''\<rparr>, db))
            \<and> (registeredCount db ident \<ge> capacity \<and> event_waitlistEnabled event \<longrightarrow>
                 registerForEvent reqUser ident db =
                   (\<lparr>status = 201, message = ''Voce foi adicionada a lista de espera''\<rparr>,
                    db\<lparr>registrations := registrations db @
                      [\<lparr>eventRegistration_eventId = ident, eventRegistration_userId = userId,
                        eventRegistration_status = WAITLIST,
                        eventRegistration_cancelledAt = None\<rparr>]\<rparr>))
            \<and> (registeredCount db ident < capacity \<longrightarrow>
                 registerForEvent reqUser ident db =
                   (\<lparr>status = 201, message = ''Inscricao realizada com sucesso''\<rparr>,
                    db\<lparr>registrations := registrations db @
                      [\<lparr>eventRegistration_eventId = ident, eventRegistration_userId = userId,
                        eventRegistration_status = REGISTERED,
                        eventRegistration_cancelledAt = None\<rparr>]\<rparr>)))
         \<and> (event_capacity event = None \<or> event_capacity event = Some 0 \<longrightarrow>
              registerForEvent reqUser ident db =
                (\<lparr>status = 201, message = ''Inscricao realizada com sucesso''\<rparr>,
                 db\<lparr>registrations := registrations db @
                   [\<lparr>eventRegistration_eventId = ident, eventRegistration_userId = userId,
                     eventRegistration_status = REGISTERED,
                     eventRegistration_cancelledAt = None\<rparr>]\<rparr>))))"
  by (auto simp add: registerForEvent_def Let_def)

theorem registerForEvent_capacity_witness:
  "user_role carla \<noteq> MOTHER
   \<and> registerForEvent carla ''e1'' fullDb =
        (\<lparr>status = 403, message = ''Apenas maes podem se registrar em eventos''\<rparr>, fullDb)
   \<and> user_role maria = MOTHER \<and> user_motherProfile maria = Some ''m1''
   \<and> find (\<lambda>e. event_id e = ''e1'' \<and> event_isPublished e) (events fullDb) = Some workshop
   \<and> event_capacity workshop = Some 1 \<and> (1::int) \<noteq> 0
   \<and> findRegistration (registrations fullDb) ''e1'' ''m1'' = None
   \<and> registeredCount fullDb ''e1'' \<ge> 1 \<and> \<not> event_waitlistEnabled workshop
   \<and> registerForEvent maria ''e1'' fullDb =
        (\<lparr>status = 400, message = ''Este evento esta lotado''\<rparr>, fullDb)
   \<and> find (\<lambda>e. event_id e = ''e1'' \<and> event_isPublished e) (events cancelledDb) = Some workshop
   \<and> findRegistration (registrations cancelledDb) ''e1'' ''m1'' =
        Some \<lparr>eventRegistration_eventId = ''e1'', eventRegistration_userId = ''m1'',
              eventRegistration_status = CANCELLED, eventRegistration_cancelledAt = Some 5\<rparr>
   \<and> registerForEvent maria ''e1'' cancelledDb =
        (\<lparr>status = 409, message = ''Voce ja esta registrada neste evento''\<rparr>, cancelledDb)
   \<and> find (\<lambda>e. event_id e = ''e1'' \<and> event_isPublished e) (events zeroDb)
        = Some (workshop\<lparr>event_capacity := Some 0\<rparr>)
   \<and> findRegistration (registrations zeroDb) ''e1'' ''m1'' = None
   \<and> registerForEvent maria ''e1'' zeroDb =
        (\<lparr>status = 201, message = ''Inscricao realizada com sucesso''\<rparr>,
         zeroDb\<lparr>registrations := registrations zeroDb @
           [\<lparr>eventRegistration_eventId = ''e1'', eventRegistration_userId = ''m1'',
             eventRegistration_status = REGISTERED, eventRegistration_cancelledAt = None\<rparr>]\<rparr>)"
proof -
  have 0: "user_role carla \<noteq> MOTHER" by (simp add: carla_def)
  have 1: "user_role maria = MOTHER" and 2: "user_motherProfile maria = Some ''m1''"
    by (simp_all add: maria_def)
  have 3: "find (\<lambda>e. event_id e = ''e1'' \<and> event_isPublished e) (events fullDb) = Some workshop"
    by (simp add: fullDb_def workshop_def)
  have 4: "event_capacity workshop = Some 1" and 5: "\<not> event_waitlistEnabled workshop"
    by (simp_all add: workshop_def)
  have 6: "findRegistration (registrations fullDb) ''e1'' ''m1'' = None"
    by (simp add: fullDb_def findRegistration_def)
  have 7: "registeredCount fullDb ''e1'' \<ge> 1"
    by (simp add: fullDb_def registeredCount_def)
  have 8: "find (\<lambda>e. event_id e = ''e1'' \<and> event_isPublished e) (events cancelledDb)
             = Some workshop"
    by (simp add: cancelledDb_def workshop_def)
  have 9: "findRegistration (registrations cancelledDb) ''e1'' ''m1'' =
        Some \<lparr>eventRegistration_eventId = ''e1'', eventRegistration_userId = ''m1'',
              eventRegistration_status = CANCELLED, eventRegistration_cancelledAt = Some 5\<rparr>"
    by (simp add: cancelledDb_def findRegistration_def)
  have 10: "find (\<lambda>e. event_id e = ''e1'' \<and> event_isPublished e) (events zeroDb)
        = Some (workshop\<lparr>event_capacity := Some 0\<rparr>)"
    by (simp add: zeroDb_def workshop_def)
  have 11: "findRegistration (registrations zeroDb) ''e1'' ''m1'' = None"
    by (simp add: zeroDb_def findRegistration_def)
  have 12: "event_capacity (workshop\<lparr>event_capacity := Some 0\<rparr>) = Some 0" by simp
  from registerForEvent_capacity [of carla "''e1''" fullDb] 0
  have a: "registerForEvent carla ''e1'' fullDb =
        (\<lparr>status = 403, message = ''Apenas maes podem se registrar em eventos''\<rparr>, fullDb)"
    by blast
  from registerForEvent_capacity [of maria "''e1''" fullDb "''m1''" workshop _ 1] 1 2 3 4 5 6 7
  have b: "registerForEvent maria ''e1'' fullDb =
        (\<lparr>status = 400, message = ''Este evento esta lotado''\<rparr>, fullDb)"
    by simp
  from registerForEvent_capacity [of maria "''e1''" cancelledDb "''m1''" workshop
      "\<lparr>eventRegistration_eventId = ''e1'', eventRegistration_userId = ''m1'',
        eventRegistration_status = CANCELLED, eventRegistration_cancelledAt = Some 5\<rparr>"]
    1 2 8 9
  have c: "registerForEvent maria ''e1'' cancelledDb =
        (\<lparr>status = 409, message = ''Voce ja esta registrada neste evento''\<rparr>, cancelledDb)"
    by blast
  from registerForEvent_capacity
      [of maria "''e1''" zeroDb "''m1''" "workshop\<lparr>event_capacity := Some 0\<rparr>"]
    1 2 10 11 12
  have d: "registerForEvent maria ''e1'' zeroDb =
        (\<lparr>status = 201, message = ''Inscricao realizada com sucesso''\<rparr>,
         zeroDb\<lparr>registrations := registrations zeroDb @
           [\<lparr>eventRegistration_eventId = ''e1'', eventRegistration_userId = ''m1'',
             eventRegistration_status = REGISTERED, eventRegistration_cancelledAt = None\<rparr>]\<rparr>)"
    by blast
  from 0 1 2 3 4 5 6 7 8 9 10 11 a b c d show ?thesis by simp
qed

lemma findRegistration_None_iff:
  "findRegistration rows e u = None \<longleftrightarrow>
     \<not> (\<exists>r \<in> set rows. eventRegistration_eventId r = e \<and> eventRegistration_userId r = u)"
  unfolding findRegistration_def find_None_iff by blast

lemma find_published_None_iff:
  "find (\<lambda>e. event_id e = i \<and> event_isPublished e) evs = None \<longleftrightarrow>
     \<not> (\<exists>e \<in> set evs. event_id e = i \<and> event_isPublished e)"
  unfolding find_None_iff by blast

lemma publishEvent_registrations: "registrations (snd (publishEvent i db)) = registrations db"
  by (simp add: publishEvent_def)

lemma publishEvent_keeps_published:
  assumes "e \<in> set (events db)" and "event_isPublished e"
  shows "\<exists>e' \<in> set (events (snd (publishEvent i db))).
           event_id e' = event_id e \<and> event_isPublished e'"
proof (cases "i \<in> set (map event_id (events db))")
  case False
  then have "snd (publishEvent i db) = db" by (simp add: publishEvent_def)
  with assms show ?thesis by auto
next
  case True
  let ?f = "\<lambda>e. if event_id e = i then e\<lparr>event_isPublished := True\<rparr> else e"
  from True have "events (snd (publishEvent i db)) = map ?f (events db)"
    by (simp add: publishEvent_def)
  moreover from assms(1) have "?f e \<in> set (map ?f (events db))"
    by (simp only: set_map) (rule imageI)
  moreover have "event_id (?f e) = event_id e \<and> event_isPublished (?f e)"
    using assms(2) by simp
  ultimately show ?thesis by (simp only: bex_simps) (rule bexI [of _ "?f e"], simp_all)
qed

lemma registerForEvent_cases:
  obtains (unchanged) "snd (registerForEvent u i db) = db"
  | (added) uid st where "user_motherProfile u = Some uid"
      "findRegistration (registrations db) i uid = None"
      "\<exists>e \<in> set (events db). event_id e = i \<and> event_isPublished e"
      "snd (registerForEvent u i db) = db\<lparr>registrations := registrations db @
              [\<lparr>eventRegistration_eventId = i, eventRegistration_userId = uid,
                eventRegistration_status = st, eventRegistration_cancelledAt = None\<rparr>]\<rparr>"
proof (cases "user_role u = MOTHER")
  case False
  then have "snd (registerForEvent u i db) = db" by (simp add: registerForEvent_def)
  then show ?thesis by (rule unchanged)
next
  case mother: True
  show ?thesis
  proof (cases "find (\<lambda>e. event_id e = i \<and> event_isPublished e) (events db)")
    case None
    with mother have "snd (registerForEvent u i db) = db" by (simp add: registerForEvent_def)
    then show ?thesis by (rule unchanged)
  next
    case (Some ev)
    then have pub: "\<exists>e \<in> set (events db). event_id e = i \<and> event_isPublished e"
      using find_published_None_iff [of i "events db"] by simp
    show ?thesis
    proof (cases "user_motherProfile u")
      case None
      with mother Some have "snd (registerForEvent u i db) = db"
        by (simp add: registerForEvent_def)
      then show ?thesis by (rule unchanged)
    next
      case profile: (Some uid)
      show ?thesis
      proof (cases "findRegistration (registrations db) i uid")
        case (Some r)
        with mother \<open>find _ _ = Some ev\<close> profile have "snd (registerForEvent u i db) = db"
          by (simp add: registerForEvent_def)
        then show ?thesis by (rule unchanged)
      next
        case None
        define full where "full = (case event_capacity ev of None \<Rightarrow> False
             | Some capacity \<Rightarrow> capacity \<noteq> 0 \<and> registeredCount db i \<ge> capacity)"
        show ?thesis
        proof (cases "full \<and> \<not> event_waitlistEnabled ev")
          case True
          with mother \<open>find _ _ = Some ev\<close> profile None
          have "snd (registerForEvent u i db) = db"
            by (simp add: registerForEvent_def Let_def full_def)
          then show ?thesis by (rule unchanged)
        next
          case False
          with mother \<open>find _ _ = Some ev\<close> profile None
          have "snd (registerForEvent u i db) = db\<lparr>registrations := registrations db @
              [\<lparr>eventRegistration_eventId = i, eventRegistration_userId = uid,
                eventRegistration_status = (if full then WAITLIST else REGISTERED),
                eventRegistration_cancelledAt = None\<rparr>]\<rparr>"
            by (simp add: registerForEvent_def Let_def full_def)
          with profile None pub show ?thesis by (rule added)
        qed
      qed
    qed
  qed
qed

lemma cancelRow_simps:
  "eventRegistration_eventId (cancelRow n e u r) = eventRegistration_eventId r"
  "eventRegistration_userId (cancelRow n e u r) = eventRegistration_userId r"
  "eventRegistration_status r = CANCELLED \<Longrightarrow> eventRegistration_status (cancelRow n e u r) = CANCELLED"
  "eventRegistration_eventId r = e \<Longrightarrow> eventRegistration_userId r = u \<Longrightarrow>
     eventRegistration_status (cancelRow n e u r) = CANCELLED"
  by (simp_all add: cancelRow_def)

lemma cancelRegistration_cases:
  obtains (unchanged) "snd (cancelRegistration n u i db) = db"
      "status (fst (cancelRegistration n u i db)) \<noteq> 200"
  | (cancelled) uid where "user_role u = MOTHER" "user_motherProfile u = Some uid"
      "findRegistration (registrations db) i uid \<noteq> None"
      "snd (cancelRegistration n u i db) =
         db\<lparr>registrations := map (cancelRow n i uid) (registrations db)\<rparr>"
proof (cases "user_role u = MOTHER")
  case False
  then have "snd (cancelRegistration n u i db) = db"
    "status (fst (cancelRegistration n u i db)) \<noteq> 200" by (simp_all add: cancelRegistration_def)
  then show ?thesis by (rule unchanged)
next
  case mother: True
  show ?thesis
  proof (cases "user_motherProfile u")
    case None
    with mother have "snd (cancelRegistration n u i db) = db"
      "status (fst (cancelRegistration n u i db)) \<noteq> 200" by (simp_all add: cancelRegistration_def)
    then show ?thesis by (rule unchanged)
  next
    case profile: (Some uid)
    show ?thesis
    proof (cases "findRegistration (registrations db) i uid")
      case None
      with mother profile have "snd (cancelRegistration n u i db) = db"
        "status (fst (cancelRegistration n u i db)) \<noteq> 200"
        by (simp_all add: cancelRegistration_def)
      then show ?thesis by (rule unchanged)
    next
      case (Some r)
      have "(\<lambda>r. if eventRegistration_eventId r = i \<and> eventRegistration_userId r = uid
                 then r\<lparr>eventRegistration_status := CANCELLED,
                        eventRegistration_cancelledAt := Some n\<rparr>
                 else r) = cancelRow n i uid"
        by (rule ext) (simp add: cancelRow_def)
      with mother profile Some have "snd (cancelRegistration n u i db) =
         db\<lparr>registrations := map (cancelRow n i uid) (registrations db)\<rparr>"
        by (simp add: cancelRegistration_def)
      with mother profile Some show ?thesis using cancelled by simp
    qed
  qed
qed


lemma step_registrations_published:
  assumes "events_step db db'" and "registrations_published db"
  shows "registrations_published db'"
  using assms
proof (induction rule: events_step.induct)
  case (step_createEvent db event)
  then show ?case by (auto simp add: registrations_published_def)
next
  case (step_publishEvent db ident)
  show ?case
    unfolding registrations_published_def publishEvent_registrations
  proof
    fix r assume "r \<in> set (registrations db)"
    with step_publishEvent obtain e where "e \<in> set (events db)"
      "event_id e = eventRegistration_eventId r" "event_isPublished e"
      unfolding registrations_published_def by blast
    with publishEvent_keeps_published [of e db ident]
    show "\<exists>e\<in>set (events (snd (publishEvent ident db))).
            event_id e = eventRegistration_eventId r \<and> event_isPublished e"
      by simp
  qed
next
  case (step_registerForEvent db reqUser ident)
  show ?case
  proof (cases rule: registerForEvent_cases [of reqUser ident db])
    case unchanged
    with step_registerForEvent show ?thesis by simp
  next
    case (added uid st)
    with step_registerForEvent show ?thesis
      by (simp add: registrations_published_def)
  qed
next
  case (step_cancelRegistration db now reqUser ident)
  show ?case
  proof (cases rule: cancelRegistration_cases [of now reqUser ident db])
    case unchanged
    with step_cancelRegistration show ?thesis by simp
  next
    case (cancelled uid)
    with step_cancelRegistration show ?thesis
      by (simp add: registrations_published_def cancelRow_simps)
  qed
qed

lemma reachable_registrations_published:
  "events_reachable db \<Longrightarrow> registrations_published db"
proof (induction rule: events_reachable.induct)
  case events_init
  show ?case by (simp add: registrations_published_def)
next
  case (events_next db db')
  then show ?case using step_registrations_published by blast
qed

lemma step_cancelled_row:
  assumes "events_step db db'" and "cancelled_row db e u"
  shows "cancelled_row db' e u"
  using assms
proof (induction rule: events_step.induct)
  case (step_createEvent db event)
  then show ?case by (simp add: cancelled_row_def)
next
  case (step_publishEvent db ident)
  then show ?case by (simp add: cancelled_row_def publishEvent_registrations)
next
  case (step_registerForEvent db reqUser ident)
  show ?case
  proof (cases rule: registerForEvent_cases [of reqUser ident db])
    case unchanged
    with step_registerForEvent show ?thesis by simp
  next
    case (added uid st)
    from step_registerForEvent obtain r where r: "r \<in> set (registrations db)"
      "eventRegistration_eventId r = e" "eventRegistration_userId r = u"
      unfolding cancelled_row_def findRegistration_None_iff by blast
    from added(2) have "\<not> (ident = e \<and> uid = u)"
      unfolding findRegistration_None_iff using r by blast
    with added(4) step_registerForEvent r show ?thesis
      unfolding cancelled_row_def findRegistration_None_iff by auto
  qed
next
  case (step_cancelRegistration db now reqUser ident)
  show ?case
  proof (cases rule: cancelRegistration_cases [of now reqUser ident db])
    case unchanged
    with step_cancelRegistration show ?thesis by simp
  next
    case (cancelled uid)
    with step_cancelRegistration show ?thesis
      unfolding cancelled_row_def findRegistration_None_iff
      by (auto simp add: cancelRow_simps)
  qed
qed

lemma steps_invariants:
  assumes "events_step\<^sup>*\<^sup>* db db'" and "registrations_published db" and "cancelled_row db e u"
  shows "registrations_published db' \<and> cancelled_row db' e u"
  using assms
proof (induction rule: rtranclp_induct)
  case base
  then show ?case by simp
next
  case (step y z)
  then show ?case using step_registrations_published step_cancelled_row by blast
qed

lemma cancelRegistration_success:
  assumes "cancelRegistration now reqUser ident db = (res, db')" and "status res = 200"
  shows "user_role reqUser = MOTHER
       \<and> (\<exists>userId. user_motherProfile reqUser = Some userId \<and> cancelled_row db' ident userId)
       \<and> length (registrations db') = length (registrations db)
       \<and> events db' = events db"
proof (cases rule: cancelRegistration_cases [of now reqUser ident db])
  case unchanged
  with assms show ?thesis by simp
next
  case (cancelled uid)
  from cancelled(3) obtain r where "r \<in> set (registrations db)"
      "eventRegistration_eventId r = ident" "eventRegistration_userId r = uid"
    unfolding findRegistration_None_iff by blast
  then have "cancelRow now ident uid r \<in> set (map (cancelRow now ident uid) (registrations db))"
    by simp
  then have "findRegistration (map (cancelRow now ident uid) (registrations db)) ident uid \<noteq> None"
    unfolding findRegistration_None_iff
    using \<open>eventRegistration_eventId r = ident\<close> \<open>eventRegistration_userId r = uid\<close>
      cancelRow_simps(1,2) by blast
  moreover have "\<forall>r \<in> set (map (cancelRow now ident uid) (registrations db)).
            eventRegistration_eventId r = ident \<and> eventRegistration_userId r = uid
            \<longrightarrow> eventRegistration_status r = CANCELLED"
    by (auto simp add: cancelRow_simps)
  ultimately have "cancelled_row db' ident uid"
    using cancelled(4) assms(1) by (simp add: cancelled_row_def)
  with cancelled assms(1) show ?thesis by auto
qed

lemma registerForEvent_conflict:
  assumes "user_role reqUser = MOTHER" and "user_motherProfile reqUser = Some userId"
    and "registrations_published db" and "cancelled_row db ident userId"
  shows "registerForEvent reqUser ident db =
           (\<lparr>status = 409, message = ''Voce ja esta registrada neste evento''\<rparr>, db)"
proof -
  from assms(4) obtain r where r: "findRegistration (registrations db) ident userId = Some r"
    by (auto simp add: cancelled_row_def)
  then have "\<exists>r \<in> set (registrations db). eventRegistration_eventId r = ident"
    using findRegistration_None_iff [of "registrations db" ident userId] by auto
  with assms(3) have "\<exists>e \<in> set (events db). event_id e = ident \<and> event_isPublished e"
    unfolding registrations_published_def by blast
  then obtain ev where "find (\<lambda>e. event_id e = ident \<and> event_isPublished e) (events db) = Some ev"
    using find_published_None_iff [of ident "events db"] by auto
  with r assms(1,2) show ?thesis
    by (simp add: registerForEvent_def)
qed

lemma registeredDb_reachable: "events_reachable registeredDb"
proof -
  have "events_step \<lparr>events = [], registrations = []\<rparr>
          \<lparr>events = [workshop], registrations = []\<rparr>"
    using step_createEvent [of "\<lparr>events = [], registrations = []\<rparr>" workshop] by simp
  with events_init have 1: "events_reachable \<lparr>events = [workshop], registrations = []\<rparr>"
    by (rule events_next)
  have "snd (registerForEvent maria ''e1'' \<lparr>events = [workshop], registrations = []\<rparr>)
          = registeredDb"
    by (simp add: registerForEvent_def workshop_def maria_def registeredCount_def
        findRegistration_def registeredDb_def Let_def)
  then have "events_step \<lparr>events = [workshop], registrations = []\<rparr> registeredDb"
    using step_registerForEvent [of "\<lparr>events = [workshop], registrations = []\<rparr>" maria "''e1''"]
    by simp
  with 1 show ?thesis by (rule events_next)
qed

text \<open>
  C9: a successful cancellation keeps the registration row and sets its status to
  Cancelled, and in every later state of the database a registration attempt by the same
  user for the same event is answered 409 and changes nothing.
\<close>

theorem cancel_blocks_registration:
  assumes "events_reachable db"
    and "cancelRegistration now reqUser ident db = (res, db')"
    and "status res = 200"
    and "events_step\<^sup>*\<^sup>* db' db''"
  shows "length (registrations db') = length (registrations db)
       \<and> (\<exists>userId. user_motherProfile reqUser = Some userId
            \<and> cancelled_row db' ident userId \<and> cancelled_row db'' ident userId)
       \<and> registerForEvent reqUser ident db'' =
           (\<lparr>status = 409, message = ''Voce ja esta registrada neste evento''\<rparr>, db'')"
proof -
  from cancelRegistration_success [OF assms(2,3)] obtain userId where
    u: "user_role reqUser = MOTHER" "user_motherProfile reqUser = Some userId"
       "cancelled_row db' ident userId"
       "length (registrations db') = length (registrations db)" by blast
  have "events_step db db'"
    using step_cancelRegistration [of db now reqUser ident] assms(2) by simp
  with assms(1) have "events_reachable db'" by (rule events_next)
  then have "registrations_published db'" by (rule reachable_registrations_published)
  with steps_invariants [OF assms(4) _ u(3)]
  have inv: "registrations_published db''" "cancelled_row db'' ident userId" by simp_all
  from registerForEvent_conflict [OF u(1,2) inv] u inv show ?thesis by simp
qed

theorem cancel_blocks_registration_witness:
  "events_reachable registeredDb
   \<and> cancelRegistration 5 maria ''e1'' registeredDb =
        (\<lparr>status = 200, message = ''Inscricao cancelada com sucesso''\<rparr>, cancelledDb)
   \<and> events_step\<^sup>*\<^sup>* cancelledDb cancelledDb
   \<and> length (registrations cancelledDb) = length (registrations registeredDb)
   \<and> registerForEvent maria ''e1'' cancelledDb =
        (\<lparr>status = 409, message = ''Voce ja esta registrada neste evento''\<rparr>, cancelledDb)"
proof -
  note 1 = registeredDb_reachable
  have 2: "cancelRegistration 5 maria ''e1'' registeredDb =
        (\<lparr>status = 200, message = ''Inscricao cancelada com sucesso''\<rparr>, cancelledDb)"
    by (simp add: cancelRegistration_def maria_def registeredDb_def cancelledDb_def
        findRegistration_def)
  have 3: "status \<lparr>status = 200, message = ''Inscricao cancelada com sucesso''\<rparr> = 200"
    by simp
  have 4: "events_step\<^sup>*\<^sup>* cancelledDb cancelledDb"
    by (rule rtranclp.rtrancl_refl)
  from cancel_blocks_registration [OF 1 2 3 4] 1 2 4 show ?thesis by simp
qed

section \<open>Properties of the reaction toggle\<close>

lemma findReaction_None_iff:
  "findReaction rows p u = None \<longleftrightarrow>
     \<not> (\<exists>r \<in> set rows. reaction_postId r = p \<and> reaction_userId r = u)"
  unfolding findReaction_def find_None_iff by blast

lemma findReaction_None_filter:
  "findReaction rows p u = None \<Longrightarrow>
     filter (\<lambda>r. \<not> (reaction_postId r = p \<and> reaction_userId r = u)) rows = rows"
  unfolding findReaction_None_iff by (induction rows) auto

lemma findReaction_Some_posts:
  "findReaction rows p u = Some r \<Longrightarrow> r \<in> set rows \<and> reaction_postId r = p \<and> reaction_userId r = u"
  unfolding findReaction_def by (auto simp add: find_Some_iff)

lemma toggleReaction_cases:
  obtains (unchanged) "toggleReaction u i b db = (fst (toggleReaction u i b db), db)"
      "status (fst (toggleReaction u i b db)) \<in> {400, 403, 500}"
      "user_role u \<noteq> MOTHER \<or> \<not> validType (b ''type'') \<or> user_motherProfile u = None
       \<or> (\<exists>uid. user_motherProfile u = Some uid \<and> findReaction (reactions db) i uid = None
             \<and> i \<notin> set (posts db))"
  | (removed) uid existing where "user_role u = MOTHER" "validType (b ''type'')"
      "user_motherProfile u = Some uid"
      "findReaction (reactions db) i uid = Some existing"
      "toggleReaction u i b db =
         (\<lparr>status = 200, message = ''Reacao removida''\<rparr>,
          db\<lparr>reactions := filter (\<lambda>r. \<not> (reaction_postId r = i \<and> reaction_userId r = uid))
                              (reactions db)\<rparr>)"
  | (added) uid where "user_role u = MOTHER" "validType (b ''type'')"
      "user_motherProfile u = Some uid"
      "findReaction (reactions db) i uid = None" "i \<in> set (posts db)"
      "toggleReaction u i b db =
         (\<lparr>status = 201, message = ''Reacao adicionada''\<rparr>,
          db\<lparr>reactions := reactions db @
             [\<lparr>reaction_type = the (b ''type''), reaction_postId = i, reaction_userId = uid\<rparr>]\<rparr>)"
proof (cases "user_role u = MOTHER \<and> validType (b ''type'')")
  case False
  then have "toggleReaction u i b db = (fst (toggleReaction u i b db), db)"
      "status (fst (toggleReaction u i b db)) \<in> {400, 403, 500}"
    by (auto simp add: toggleReaction_def prisma_reaction_create_def Let_def)
  with False show ?thesis using unchanged by blast
next
  case ok: True
  show ?thesis
  proof (cases "user_motherProfile u")
    case None
    with ok have "toggleReaction u i b db = (fst (toggleReaction u i b db), db)"
      "status (fst (toggleReaction u i b db)) \<in> {400, 403, 500}"
      by (auto simp add: toggleReaction_def prisma_reaction_create_def Let_def)
    with None show ?thesis using unchanged by blast
  next
    case profile: (Some uid)
    show ?thesis
    proof (cases "findReaction (reactions db) i uid")
      case (Some existing)
      with ok profile have "toggleReaction u i b db =
         (\<lparr>status = 200, message = ''Reacao removida''\<rparr>,
          db\<lparr>reactions := filter (\<lambda>r. \<not> (reaction_postId r = i \<and> reaction_userId r = uid))
                              (reactions db)\<rparr>)"
        by (simp add: toggleReaction_def prisma_reaction_create_def Let_def)
      with ok profile Some show ?thesis using removed by blast
    next
      case None
      show ?thesis
      proof (cases "i \<in> set (posts db)")
        case False
        with ok profile None have "toggleReaction u i b db = (fst (toggleReaction u i b db), db)"
          "status (fst (toggleReaction u i b db)) \<in> {400, 403, 500}"
          by (auto simp add: toggleReaction_def prisma_reaction_create_def Let_def)
        with profile None False show ?thesis using unchanged by blast
      next
        case True
        with ok profile None have "toggleReaction u i b db =
         (\<lparr>status = 201, message = ''Reacao adicionada''\<rparr>,
          db\<lparr>reactions := reactions db @
             [\<lparr>reaction_type = the (b ''type''), reaction_postId = i, reaction_userId = uid\<rparr>]\<rparr>)"
          by (simp add: toggleReaction_def prisma_reaction_create_def Let_def)
        with ok profile None True show ?thesis using added by blast
      qed
    qed
  qed
qed


lemma pairCount_zero_iff:
  "pairCount db p u = 0 \<longleftrightarrow> findReaction (reactions db) p u = None"
  unfolding pairCount_def findReaction_None_iff by (simp add: filter_empty_conv)

lemma length_filter_filter_le:
  "length (filter P (filter Q xs)) \<le> length (filter P xs)"
  by (induction xs) auto

lemma reactionCount_split:
  "length (filter (\<lambda>r. reaction_postId r = p) rows) =
     length (filter (\<lambda>r. reaction_postId r = p)
               (filter (\<lambda>r. \<not> (reaction_postId r = i \<and> reaction_userId r = u)) rows))
     + (if p = i
        then length (filter (\<lambda>r. reaction_postId r = i \<and> reaction_userId r = u) rows) else 0)"
  by (induction rows) auto

lemma toggleReaction_consistent:
  assumes "reactions_consistent db"
  shows "reactions_consistent (snd (toggleReaction u i b db))"
proof (cases rule: toggleReaction_cases [of u i b db])
  case unchanged
  with assms show ?thesis by (metis snd_conv)
next
  case (removed uid existing)
  have "pairCount (snd (toggleReaction u i b db)) p v \<le> pairCount db p v" for p v
    unfolding removed(5) pairCount_def by (simp del: filter_filter add: length_filter_filter_le)
  moreover from assms have "pairCount db p v \<le> 1" for p v
    by (simp add: reactions_consistent_def)
  ultimately have "pairCount (snd (toggleReaction u i b db)) p v \<le> 1" for p v
    using order_trans by blast
  moreover from assms
  have "\<forall>r \<in> set (reactions (snd (toggleReaction u i b db))).
          reaction_postId r \<in> set (posts (snd (toggleReaction u i b db)))"
    unfolding removed(5) by (simp add: reactions_consistent_def)
  ultimately show ?thesis by (simp add: reactions_consistent_def)
next
  case (added uid)
  from added(4) have zero: "pairCount db i uid = 0" by (simp add: pairCount_zero_iff)
  have "pairCount (snd (toggleReaction u i b db)) p v \<le> 1" for p v
  proof (cases "p = i \<and> v = uid")
    case True
    with zero show ?thesis unfolding added(6) pairCount_def by simp
  next
    case False
    then have "pairCount (snd (toggleReaction u i b db)) p v = pairCount db p v"
      unfolding added(6) pairCount_def by auto
    with assms show ?thesis by (simp add: reactions_consistent_def)
  qed
  moreover from assms added(5)
  have "\<forall>r \<in> set (reactions (snd (toggleReaction u i b db))).
          reaction_postId r \<in> set (posts (snd (toggleReaction u i b db)))"
    unfolding added(6) by (simp add: reactions_consistent_def)
  ultimately show ?thesis by (simp add: reactions_consistent_def)
qed

lemma reachable_reactions_consistent:
  "community_reachable db \<Longrightarrow> reactions_consistent db"
proof (induction rule: community_reachable.induct)
  case community_init
  show ?case by (simp add: reactions_consistent_def pairCount_def)
next
  case (community_createPost db post)
  then show ?case by (simp add: reactions_consistent_def pairCount_def)
next
  case (community_toggle db reqUser ident reqBody)
  from community_toggle.IH show ?case by (rule toggleReaction_consistent)
qed

lemma toggle_twice_after_add:
  assumes "findReaction (reactions db) i uid = None" "user_motherProfile u = Some uid"
  shows "snd (toggleReaction u i b (snd (toggleReaction u i b db))) = db"
proof (cases rule: toggleReaction_cases [of u i b db])
  case unchanged
  then have "snd (toggleReaction u i b db) = db" by (metis snd_conv)
  then show ?thesis by simp
next
  case (removed uid' existing)
  with assms show ?thesis by simp
next
  case (added uid')
  with assms have [simp]: "uid' = uid" by simp
  let ?new = "\<lparr>reaction_type = the (b ''type''), reaction_postId = i, reaction_userId = uid\<rparr>"
  have "findReaction (reactions db @ [?new]) i uid \<noteq> None"
    unfolding findReaction_None_iff by simp
  then obtain r where r: "findReaction (reactions db @ [?new]) i uid = Some r" by blast
  from added(6) have first: "snd (toggleReaction u i b db) = db\<lparr>reactions := reactions db @ [?new]\<rparr>"
    by simp
  from added(1,2) assms(2) r
  have "snd (toggleReaction u i b (db\<lparr>reactions := reactions db @ [?new]\<rparr>)) =
      db\<lparr>reactions := filter (\<lambda>r. \<not> (reaction_postId r = i \<and> reaction_userId r = uid))
                              (reactions db @ [?new])\<rparr>"
    by (simp add: toggleReaction_def prisma_reaction_create_def Let_def)
  with first have "snd (toggleReaction u i b (snd (toggleReaction u i b db))) =
      db\<lparr>reactions := filter (\<lambda>r. \<not> (reaction_postId r = i \<and> reaction_userId r = uid))
                              (reactions db @ [?new])\<rparr>"
    by simp
  with findReaction_None_filter [OF assms(1)] show ?thesis by simp
qed


lemma toggle_after_remove:
  assumes "reactions_consistent db"
    and "user_role u = MOTHER" "validType (b ''type'')" "user_motherProfile u = Some uid"
    and "findReaction (reactions db) i uid = Some existing"
  shows "toggleReaction u i b
           (db\<lparr>reactions := filter (\<lambda>r. \<not> (reaction_postId r = i \<and> reaction_userId r = uid))
                               (reactions db)\<rparr>) =
         (\<lparr>status = 201, message = ''Reacao adicionada''\<rparr>,
          db\<lparr>reactions :=
               filter (\<lambda>r. \<not> (reaction_postId r = i \<and> reaction_userId r = uid)) (reactions db) @
               [\<lparr>reaction_type = the (b ''type''), reaction_postId = i, reaction_userId = uid\<rparr>]\<rparr>)"
proof -
  from findReaction_Some_posts [OF assms(5)] assms(1) have "i \<in> set (posts db)"
    unfolding reactions_consistent_def by blast
  moreover have "findReaction (filter (\<lambda>r. \<not> (reaction_postId r = i \<and> reaction_userId r = uid))
                    (reactions db)) i uid = None"
    unfolding findReaction_None_iff by simp
  ultimately show ?thesis using assms(2-4)
    by (simp add: toggleReaction_def prisma_reaction_create_def Let_def)
qed

lemma pairCount_one:
  assumes "reactions_consistent db" and "findReaction (reactions db) i uid = Some existing"
  shows "filter (\<lambda>r. reaction_postId r = i \<and> reaction_userId r = uid) (reactions db) = [existing]"
proof -
  let ?ks = "filter (\<lambda>r. reaction_postId r = i \<and> reaction_userId r = uid) (reactions db)"
  from findReaction_Some_posts [OF assms(2)] have "existing \<in> set ?ks" by simp
  moreover from assms(1) have "length ?ks \<le> 1"
    unfolding reactions_consistent_def pairCount_def by blast
  ultimately show ?thesis
    by (cases ?ks) (auto simp del: filter_eq_Cons_iff)
qed

lemma toggle_twice_count:
  assumes "reactions_consistent db"
  shows "reactionCount (snd (toggleReaction u i b (snd (toggleReaction u i b db)))) p
           = reactionCount db p"
proof (cases rule: toggleReaction_cases [of u i b db])
  case unchanged
  then have "snd (toggleReaction u i b db) = db" by (metis snd_conv)
  then show ?thesis by simp
next
  case (added uid)
  with toggle_twice_after_add [of db i uid u b] show ?thesis by simp
next
  case (removed uid existing)
  from removed(5) have first: "snd (toggleReaction u i b db) =
      db\<lparr>reactions := filter (\<lambda>r. \<not> (reaction_postId r = i \<and> reaction_userId r = uid))
                          (reactions db)\<rparr>" by simp
  from toggle_after_remove [of db u b uid i existing] assms removed(1-4) first
  have "reactions (snd (toggleReaction u i b (snd (toggleReaction u i b db)))) =
      filter (\<lambda>r. \<not> (reaction_postId r = i \<and> reaction_userId r = uid)) (reactions db) @
        [\<lparr>reaction_type = the (b ''type''), reaction_postId = i, reaction_userId = uid\<rparr>]"
    by simp
  then have "reactionCount (snd (toggleReaction u i b (snd (toggleReaction u i b db)))) p =
      length (filter (\<lambda>r. reaction_postId r = p)
               (filter (\<lambda>r. \<not> (reaction_postId r = i \<and> reaction_userId r = uid)) (reactions db)))
      + (if p = i then 1 else 0)"
    by (simp add: reactionCount_def del: filter_filter)
  moreover have "reactionCount db p =
      length (filter (\<lambda>r. reaction_postId r = p)
               (filter (\<lambda>r. \<not> (reaction_postId r = i \<and> reaction_userId r = uid)) (reactions db)))
      + (if p = i then 1 else 0)"
    unfolding reactionCount_def
    using reactionCount_split [of p "reactions db" i uid] pairCount_one [OF assms removed(4)]
    by simp
  ultimately show ?thesis by simp
qed

lemma toggle_twice_same_type:
  assumes "reactions_consistent db"
    and "user_role u = MOTHER" "validType (b ''type'')" "user_motherProfile u = Some uid"
    and "findReaction (reactions db) i uid = Some existing"
    and "b ''type'' = Some (reaction_type existing)"
  shows "set (reactions (snd (toggleReaction u i b (snd (toggleReaction u i b db)))))
           = set (reactions db)"
proof -
  from assms(2-5) have first: "snd (toggleReaction u i b db) =
      db\<lparr>reactions := filter (\<lambda>r. \<not> (reaction_postId r = i \<and> reaction_userId r = uid))
                          (reactions db)\<rparr>"
    by (simp add: toggleReaction_def prisma_reaction_create_def Let_def)
  from findReaction_Some_posts [OF assms(5)] assms(6)
  have new: "\<lparr>reaction_type = the (b ''type''), reaction_postId = i, reaction_userId = uid\<rparr>
          = existing" by simp
  from toggle_after_remove [of db u b uid i existing] assms(1-5) first new
  have "reactions (snd (toggleReaction u i b (snd (toggleReaction u i b db)))) =
      filter (\<lambda>r. \<not> (reaction_postId r = i \<and> reaction_userId r = uid)) (reactions db) @
        [existing]"
    by simp
  also have "\<dots> = filter (\<lambda>r. \<not> (reaction_postId r = i \<and> reaction_userId r = uid)) (reactions db)
       @ filter (\<lambda>r. reaction_postId r = i \<and> reaction_userId r = uid) (reactions db)"
    by (simp only: pairCount_one [OF assms(1,5)])
  finally show ?thesis by auto
qed

lemma toggle_twice_existing:
  assumes "reactions_consistent db"
    and "user_role u = MOTHER" "validType (b ''type'')" "user_motherProfile u = Some uid"
    and "findReaction (reactions db) i uid = Some existing"
  shows "toggleReaction u i b db =
           (\<lparr>status = 200, message = ''Reacao removida''\<rparr>,
            db\<lparr>reactions :=
                 filter (\<lambda>r. \<not> (reaction_postId r = i \<and> reaction_userId r = uid))
                   (reactions db)\<rparr>)"
    and "toggleReaction u i b (snd (toggleReaction u i b db)) =
           (\<lparr>status = 201, message = ''Reacao adicionada''\<rparr>,
            db\<lparr>reactions :=
                 filter (\<lambda>r. \<not> (reaction_postId r = i \<and> reaction_userId r = uid))
                   (reactions db) @
                 [\<lparr>reaction_type = the (b ''type''), reaction_postId = i,
                   reaction_userId = uid\<rparr>]\<rparr>)"
    and "set (reactions (snd (toggleReaction u i b (snd (toggleReaction u i b db)))))
           = set (reactions db) \<longleftrightarrow> b ''type'' = Some (reaction_type existing)"
proof -
  let ?new = "\<lparr>reaction_type = the (b ''type''), reaction_postId = i, reaction_userId = uid\<rparr>"
  let ?rest = "filter (\<lambda>r. \<not> (reaction_postId r = i \<and> reaction_userId r = uid)) (reactions db)"
  from assms(2-5) show first: "toggleReaction u i b db =
      (\<lparr>status = 200, message = ''Reacao removida''\<rparr>, db\<lparr>reactions := ?rest\<rparr>)"
    by (simp add: toggleReaction_def prisma_reaction_create_def Let_def)
  from toggle_after_remove [of db u b uid i existing] assms first
  show second: "toggleReaction u i b (snd (toggleReaction u i b db)) =
      (\<lparr>status = 201, message = ''Reacao adicionada''\<rparr>, db\<lparr>reactions := ?rest @ [?new]\<rparr>)"
    by simp
  from assms(3) obtain t where t: "b ''type'' = Some t"
    by (auto simp add: validType_def)
  show "set (reactions (snd (toggleReaction u i b (snd (toggleReaction u i b db)))))
           = set (reactions db) \<longleftrightarrow> b ''type'' = Some (reaction_type existing)"
  proof
    assume eq: "set (reactions (snd (toggleReaction u i b (snd (toggleReaction u i b db)))))
           = set (reactions db)"
    from second have "?new \<in> set (reactions (snd (toggleReaction u i b
                                          (snd (toggleReaction u i b db)))))"
      by simp
    with eq have "?new \<in> set (reactions db)" by simp
    then have "?new \<in> set (filter (\<lambda>r. reaction_postId r = i \<and> reaction_userId r = uid)
                              (reactions db))"
      by simp
    then have "?new = existing"
      by (simp only: pairCount_one [OF assms(1,5)]) simp
    then have "reaction_type existing = the (b ''type'')"
      by (metis reaction.select_convs(1))
    with t show "b ''type'' = Some (reaction_type existing)" by simp
  next
    assume "b ''type'' = Some (reaction_type existing)"
    with assms show "set (reactions (snd (toggleReaction u i b (snd (toggleReaction u i b db)))))
           = set (reactions db)"
      by (rule toggle_twice_same_type)
  qed
qed

lemma toggle_heart_noReactionDb:
  "toggleReaction maria ''p1'' heartBody noReactionDb =
     (\<lparr>status = 201, message = ''Reacao adicionada''\<rparr>, heartDb)"
  by (simp add: toggleReaction_def prisma_reaction_create_def validType_def maria_def heartBody_def noReactionDb_def
      heartDb_def heartRow_def findReaction_def Let_def)

lemma heartDb_reachable: "community_reachable heartDb"
proof -
  have "community_reachable (\<lparr>posts = [], reactions = []\<rparr>\<lparr>posts := [] @ [''p1'']\<rparr>)"
    using community_createPost [OF community_init, of "''p1''"] by simp
  then have "community_reachable noReactionDb" by (simp add: noReactionDb_def)
  from community_toggle [OF this, of maria "''p1''" heartBody] show ?thesis
    by (simp add: toggle_heart_noReactionDb)
qed

lemma noReactionDb_reachable: "community_reachable noReactionDb"
proof -
  have "community_reachable (\<lparr>posts = [], reactions = []\<rparr>\<lparr>posts := [] @ [''p1'']\<rparr>)"
    using community_createPost [OF community_init, of "''p1''"] by simp
  then show ?thesis by (simp add: noReactionDb_def)
qed

text \<open>
  C4, as stated, fails when the user already has a reaction on the post: the first call
  deletes the row and the second creates one of the requested type. With a stored HEART
  and two calls with SUPPORT, the post ends with a SUPPORT row in place of the HEART row.
\<close>

theorem toggleReaction_twice_counterexample:
  "toggleReaction maria ''p1'' supportBody heartDb =
     (\<lparr>status = 200, message = ''Reacao removida''\<rparr>, noReactionDb)
   \<and> toggleReaction maria ''p1'' supportBody noReactionDb =
     (\<lparr>status = 201, message = ''Reacao adicionada''\<rparr>, supportDb)
   \<and> set (reactions supportDb) \<noteq> set (reactions heartDb)"
  by (simp add: toggleReaction_def prisma_reaction_create_def validType_def maria_def supportBody_def noReactionDb_def
      heartDb_def supportDb_def heartRow_def supportRow_def findReaction_def Let_def)

text \<open>
  C4, amended: in every reachable state, two successive calls of the toggle with the same
  request leave the number of reactions of every post as it was. When the user has no
  reaction on the post before the first call, the two calls restore the tables exactly,
  and for a mother, a valid type and an existing post the first call creates the row and
  the second deletes it. When a mother has a reaction on the post and the type is valid,
  the first call deletes her row and the second creates a row of the requested type; the
  rows of the table, as to type, post and user, are then those from before the first
  call if and only if the stored type is the requested one.
\<close>

theorem toggleReaction_twice:
  "(community_reachable db \<longrightarrow>
      reactionCount (snd (toggleReaction reqUser ident reqBody
                            (snd (toggleReaction reqUser ident reqBody db)))) postId
        = reactionCount db postId)
   \<and> (user_motherProfile reqUser = Some userId
        \<and> findReaction (reactions db) ident userId = None \<longrightarrow>
        snd (toggleReaction reqUser ident reqBody
               (snd (toggleReaction reqUser ident reqBody db))) = db
        \<and> (user_role reqUser = MOTHER \<and> validType (reqBody ''type'')
             \<and> ident \<in> set (posts db) \<longrightarrow>
             toggleReaction reqUser ident reqBody db =
               (\<lparr>status = 201, message = ''Reacao adicionada''\<rparr>,
                db\<lparr>reactions := reactions db @
                   [\<lparr>reaction_type = the (reqBody ''type''), reaction_postId = ident,
                     reaction_userId = userId\<rparr>]\<rparr>)
             \<and> toggleReaction reqUser ident reqBody
                  (snd (toggleReaction reqUser ident reqBody db)) =
               (\<lparr>status = 200, message = ''Reacao removida''\<rparr>, db)))
   \<and> (community_reachable db \<and> user_role reqUser = MOTHER
        \<and> user_motherProfile reqUser = Some userId
        \<and> findReaction (reactions db) ident userId = Some existing
        \<and> validType (reqBody ''type'') \<longrightarrow>
        toggleReaction reqUser ident reqBody db =
          (\<lparr>status = 200, message = ''Reacao removida''\<rparr>,
           db\<lparr>reactions :=
                filter (\<lambda>r. \<not> (reaction_postId r = ident \<and> reaction_userId r = userId))
                  (reactions db)\<rparr>)
        \<and> toggleReaction reqUser ident reqBody
             (snd (toggleReaction reqUser ident reqBody db)) =
          (\<lparr>status = 201, message = ''Reacao adicionada''\<rparr>,
           db\<lparr>reactions :=
                filter (\<lambda>r. \<not> (reaction_postId r = ident \<and> reaction_userId r = userId))
                  (reactions db) @
                [\<lparr>reaction_type = the (reqBody ''type''), reaction_postId = ident,
                  reaction_userId = userId\<rparr>]\<rparr>)
        \<and> (set (reactions (snd (toggleReaction reqUser ident reqBody
                                   (snd (toggleReaction reqUser ident reqBody db)))))
              = set (reactions db)
            \<longleftrightarrow> reqBody ''type'' = Some (reaction_type existing)))"
proof (intro conjI impI)
  assume "community_reachable db"
  then have "reactions_consistent db" by (rule reachable_reactions_consistent)
  then show "reactionCount (snd (toggleReaction reqUser ident reqBody
                            (snd (toggleReaction reqUser ident reqBody db)))) postId
        = reactionCount db postId"
    by (rule toggle_twice_count)
next
  assume "user_motherProfile reqUser = Some userId
        \<and> findReaction (reactions db) ident userId = None"
  then show "snd (toggleReaction reqUser ident reqBody
               (snd (toggleReaction reqUser ident reqBody db))) = db"
    using toggle_twice_after_add by blast
next
  assume a: "user_motherProfile reqUser = Some userId
        \<and> findReaction (reactions db) ident userId = None"
    and b: "user_role reqUser = MOTHER \<and> validType (reqBody ''type'') \<and> ident \<in> set (posts db)"
  let ?new = "\<lparr>reaction_type = the (reqBody ''type''), reaction_postId = ident,
                reaction_userId = userId\<rparr>"
  from a b show first: "toggleReaction reqUser ident reqBody db =
      (\<lparr>status = 201, message = ''Reacao adicionada''\<rparr>,
       db\<lparr>reactions := reactions db @ [?new]\<rparr>)"
    by (simp add: toggleReaction_def prisma_reaction_create_def Let_def)
  have "findReaction (reactions db @ [?new]) ident userId \<noteq> None"
    unfolding findReaction_None_iff by simp
  then obtain r where "findReaction (reactions db @ [?new]) ident userId = Some r" by blast
  with a b have "toggleReaction reqUser ident reqBody (db\<lparr>reactions := reactions db @ [?new]\<rparr>)
      = (\<lparr>status = 200, message = ''Reacao removida''\<rparr>,
         db\<lparr>reactions :=
              filter (\<lambda>r. \<not> (reaction_postId r = ident \<and> reaction_userId r = userId))
                (reactions db @ [?new])\<rparr>)"
    by (simp add: toggleReaction_def prisma_reaction_create_def Let_def)
  moreover from a have "filter (\<lambda>r. \<not> (reaction_postId r = ident \<and> reaction_userId r = userId))
                (reactions db @ [?new]) = reactions db"
    using findReaction_None_filter [of "reactions db" ident userId] by simp
  ultimately show "toggleReaction reqUser ident reqBody
                  (snd (toggleReaction reqUser ident reqBody db)) =
               (\<lparr>status = 200, message = ''Reacao removida''\<rparr>, db)"
    using first by simp
next
  assume a: "community_reachable db \<and> user_role reqUser = MOTHER
        \<and> user_motherProfile reqUser = Some userId
        \<and> findReaction (reactions db) ident userId = Some existing
        \<and> validType (reqBody ''type'')"
  then have c: "reactions_consistent db" using reachable_reactions_consistent by blast
  note ex = toggle_twice_existing [of db reqUser reqBody userId ident existing]
  from ex(1) a c show "toggleReaction reqUser ident reqBody db =
          (\<lparr>status = 200, message = ''Reacao removida''\<rparr>,
           db\<lparr>reactions :=
                filter (\<lambda>r. \<not> (reaction_postId r = ident \<and> reaction_userId r = userId))
                  (reactions db)\<rparr>)"
    by blast
  from ex(2) a c show "toggleReaction reqUser ident reqBody
             (snd (toggleReaction reqUser ident reqBody db)) =
          (\<lparr>status = 201, message = ''Reacao adicionada''\<rparr>,
           db\<lparr>reactions :=
                filter (\<lambda>r. \<not> (reaction_postId r = ident \<and> reaction_userId r = userId))
                  (reactions db) @
                [\<lparr>reaction_type = the (reqBody ''type''), reaction_postId = ident,
                  reaction_userId = userId\<rparr>]\<rparr>)"
    by blast
  from ex(3) a c show "set (reactions (snd (toggleReaction reqUser ident reqBody
                                   (snd (toggleReaction reqUser ident reqBody db)))))
              = set (reactions db)
            \<longleftrightarrow> reqBody ''type'' = Some (reaction_type existing)"
    by blast
qed

theorem toggleReaction_twice_witness:
  "community_reachable heartDb \<and> user_role maria = MOTHER
   \<and> user_motherProfile maria = Some ''m1''
   \<and> findReaction (reactions heartDb) ''p1'' ''m1'' = Some heartRow
   \<and> validType (heartBody ''type'') \<and> validType (supportBody ''type'')
   \<and> heartBody ''type'' = Some (reaction_type heartRow)
   \<and> supportBody ''type'' \<noteq> Some (reaction_type heartRow)
   \<and> reactionCount (snd (toggleReaction maria ''p1'' supportBody
                             (snd (toggleReaction maria ''p1'' supportBody heartDb)))) ''p1''
       = reactionCount heartDb ''p1''
   \<and> set (reactions (snd (toggleReaction maria ''p1'' heartBody
                             (snd (toggleReaction maria ''p1'' heartBody heartDb)))))
       = set (reactions heartDb)
   \<and> set (reactions (snd (toggleReaction maria ''p1'' supportBody
                             (snd (toggleReaction maria ''p1'' supportBody heartDb)))))
       \<noteq> set (reactions heartDb)
   \<and> findReaction (reactions noReactionDb) ''p1'' ''m1'' = None
   \<and> ''p1'' \<in> set (posts noReactionDb)
   \<and> snd (toggleReaction maria ''p1'' heartBody
            (snd (toggleReaction maria ''p1'' heartBody noReactionDb))) = noReactionDb
   \<and> toggleReaction maria ''p1'' heartBody
            (snd (toggleReaction maria ''p1'' heartBody noReactionDb)) =
        (\<lparr>status = 200, message = ''Reacao removida''\<rparr>, noReactionDb)"
proof -
  note 1 = heartDb_reachable
  have 2: "user_role maria = MOTHER" "user_motherProfile maria = Some ''m1''"
    by (simp_all add: maria_def)
  have 3: "findReaction (reactions heartDb) ''p1'' ''m1'' = Some heartRow"
    by (simp add: heartDb_def heartRow_def findReaction_def)
  have 4: "validType (heartBody ''type'')" "validType (supportBody ''type'')"
    "heartBody ''type'' = Some (reaction_type heartRow)"
    "supportBody ''type'' \<noteq> Some (reaction_type heartRow)"
    by (simp_all add: heartBody_def supportBody_def heartRow_def validType_def)
  have 5: "findReaction (reactions noReactionDb) ''p1'' ''m1'' = None"
    "''p1'' \<in> set (posts noReactionDb)"
    by (simp_all add: noReactionDb_def findReaction_def)
  note h = toggleReaction_twice [of heartDb maria "''p1''" heartBody "''p1''" "''m1''" heartRow]
  note s = toggleReaction_twice [of heartDb maria "''p1''" supportBody "''p1''" "''m1''" heartRow]
  note n = toggleReaction_twice [of noReactionDb maria "''p1''" heartBody "''p1''" "''m1''"]
  from s 1 have a: "reactionCount (snd (toggleReaction maria ''p1'' supportBody
                             (snd (toggleReaction maria ''p1'' supportBody heartDb)))) ''p1''
       = reactionCount heartDb ''p1''" by blast
  from h 1 2 3 4 have b: "set (reactions (snd (toggleReaction maria ''p1'' heartBody
                             (snd (toggleReaction maria ''p1'' heartBody heartDb)))))
       = set (reactions heartDb)" by blast
  from s 1 2 3 4 have c: "set (reactions (snd (toggleReaction maria ''p1'' supportBody
                             (snd (toggleReaction maria ''p1'' supportBody heartDb)))))
       \<noteq> set (reactions heartDb)" by blast
  from n 2 4 5 have d: "snd (toggleReaction maria ''p1'' heartBody
            (snd (toggleReaction maria ''p1'' heartBody noReactionDb))) = noReactionDb"
    and e: "toggleReaction maria ''p1'' heartBody
            (snd (toggleReaction maria ''p1'' heartBody noReactionDb)) =
        (\<lparr>status = 200, message = ''Reacao removida''\<rparr>, noReactionDb)"
    by blast+
  from 1 2 3 4 5 a b c d e show ?thesis by blast
qed

text \<open>
  C10: in every reachable state a pair of a post and a user has at most one reaction
  row; and when a mother who has a reaction on a post calls the toggle with a valid type
  that differs from the stored one, the stored row is deleted and none is added.
\<close>

theorem toggleReaction_ignores_type:
  "(community_reachable db \<longrightarrow> pairCount db postId userId \<le> 1)
   \<and> (user_role reqUser = MOTHER \<and> user_motherProfile reqUser = Some userId
        \<and> validType (reqBody ''type'')
        \<and> findReaction (reactions db) ident userId = Some existing
        \<and> reqBody ''type'' \<noteq> Some (reaction_type existing) \<longrightarrow>
        toggleReaction reqUser ident reqBody db =
          (\<lparr>status = 200, message = ''Reacao removida''\<rparr>,
           db\<lparr>reactions :=
                filter (\<lambda>r. \<not> (reaction_postId r = ident \<and> reaction_userId r = userId))
                  (reactions db)\<rparr>)
        \<and> pairCount (snd (toggleReaction reqUser ident reqBody db)) ident userId = 0)"
proof -
  have "pairCount db postId userId \<le> 1" if "community_reachable db"
    using reachable_reactions_consistent [OF that] by (simp add: reactions_consistent_def)
  moreover have "toggleReaction reqUser ident reqBody db =
          (\<lparr>status = 200, message = ''Reacao removida''\<rparr>,
           db\<lparr>reactions :=
                filter (\<lambda>r. \<not> (reaction_postId r = ident \<and> reaction_userId r = userId))
                  (reactions db)\<rparr>)
        \<and> pairCount (snd (toggleReaction reqUser ident reqBody db)) ident userId = 0"
    if "user_role reqUser = MOTHER" "user_motherProfile reqUser = Some userId"
       "validType (reqBody ''type'')" "findReaction (reactions db) ident userId = Some existing"
    using that by (simp add: toggleReaction_def prisma_reaction_create_def Let_def pairCount_def)
  ultimately show ?thesis by blast
qed

theorem toggleReaction_ignores_type_witness:
  "community_reachable heartDb \<and> pairCount heartDb ''p1'' ''m1'' \<le> 1
   \<and> user_role maria = MOTHER \<and> user_motherProfile maria = Some ''m1''
   \<and> validType (supportBody ''type'')
   \<and> findReaction (reactions heartDb) ''p1'' ''m1'' = Some heartRow
   \<and> supportBody ''type'' \<noteq> Some (reaction_type heartRow)
   \<and> fst (toggleReaction maria ''p1'' supportBody heartDb) =
        \<lparr>status = 200, message = ''Reacao removida''\<rparr>
   \<and> pairCount (snd (toggleReaction maria ''p1'' supportBody heartDb)) ''p1'' ''m1'' = 0"
proof -
  note 1 = heartDb_reachable
  have 2: "user_role maria = MOTHER" "user_motherProfile maria = Some ''m1''"
    by (simp_all add: maria_def)
  have 3: "findReaction (reactions heartDb) ''p1'' ''m1'' = Some heartRow"
    by (simp add: heartDb_def heartRow_def findReaction_def)
  have 4: "validType (supportBody ''type'')"
    "supportBody ''type'' \<noteq> Some (reaction_type heartRow)"
    by (simp_all add: supportBody_def heartRow_def validType_def)
  note inst = toggleReaction_ignores_type
         [of heartDb "''p1''" "''m1''" maria supportBody "''p1''" heartRow]
  from inst 1 have a: "pairCount heartDb ''p1'' ''m1'' \<le> 1" by blast
  from inst 2 3 4 have b: "toggleReaction maria ''p1'' supportBody heartDb =
          (\<lparr>status = 200, message = ''Reacao removida''\<rparr>,
           heartDb\<lparr>reactions :=
                filter (\<lambda>r. \<not> (reaction_postId r = ''p1'' \<and> reaction_userId r = ''m1''))
                  (reactions heartDb)\<rparr>)"
    and c: "pairCount (snd (toggleReaction maria ''p1'' supportBody heartDb)) ''p1'' ''m1'' = 0"
    by blast+
  from b have d: "fst (toggleReaction maria ''p1'' supportBody heartDb) =
        \<lparr>status = 200, message = ''Reacao removida''\<rparr>"
    by (simp only: fst_conv)
  from 1 2 3 4 a c d show ?thesis by blast
qed

section \<open>Properties of the pregnancy handlers\<close>

text \<open>
  The guard of \<^verbatim>\<open>createPregnancy\<close>: when the row that the relation loader returns for
  the profile of the requesting mother is Active, a request with a due date in the future
  is answered 409 and nothing is created.
\<close>

lemma createPregnancy_guard:
  assumes "user_role reqUser = MOTHER"
    and "truthy (reqBody ''dueDate'')"
    and "isFutureDate parseDate now (the (reqBody ''dueDate''))"
    and "find (\<lambda>m. motherProfile_userId m = user_id reqUser) (motherProfiles db) = Some profile"
    and "include_pregnancy (\<lambda>p. True) (pregnancies db) profile = Some existing"
    and "pregnancy_status existing = ACTIVE"
  shows "createPregnancy parseDate now newId reqUser reqBody db =
           (\<lparr>status = 409, message = ''Voce ja tem uma gravidez ativa''\<rparr>, db)"
  using assms by (simp add: createPregnancy_def validateRequiredFields_def Let_def)

lemma createPregnancy_guard_example:
  "createPregnancy parseWith 0 ''g2'' maria dueBody activeDb =
     (\<lparr>status = 409, message = ''Voce ja tem uma gravidez ativa''\<rparr>, activeDb)"
  by (simp add: createPregnancy_def validateRequiredFields_def truthy_def isFutureDate_def
      parseWith_def dueBody_def maria_def mariaProfile_def include_pregnancy_def
      activeDb_def firstPregnancy_def Let_def)

text \<open>
  \<^verbatim>\<open>updatePregnancy\<close> has no such guard: it writes the status of the request into the
  row, whatever the other rows of the profile are.
\<close>

lemma updatePregnancy_status:
  assumes "user_role reqUser = MOTHER"
    and "find (\<lambda>p. pregnancy_id p = ident) (pregnancies db) = Some pregnancy"
    and "find (\<lambda>m. motherProfile_id m = pregnancy_motherProfileId pregnancy)
           (motherProfiles db) = Some profile"
    and "motherProfile_userId profile = user_id reqUser"
    and "reqBody ''dueDate'' = None"
    and "reqBody ''status'' = Some ''ACTIVE''"
  shows "updatePregnancy parseDate now reqUser ident reqBody db =
           (\<lparr>status = 200, message = ''Gravidez atualizada com sucesso''\<rparr>,
            db\<lparr>pregnancies :=
                 prisma_pregnancy_update ident (\<lambda>r. r\<lparr>pregnancy_status := ACTIVE\<rparr>)
                   (pregnancies db)\<rparr>)"
  using assms by (simp add: updatePregnancy_def truthy_def parseStatus_def Let_def)







end
